theory Spec2Isabelle
  imports Main "HOL-Library.Word" "HOL-Library.Code_Target_Nat"
begin

section \<open>The BITS upload handler of gobits (handler.go)\<close>

text \<open>
  A shallow embedding of \<^verbatim>\<open>handler.go\<close>.  The Go handler mutates three things: the
  \<^verbatim>\<open>http.ResponseWriter\<close> it is given, the file system below the configured
  temporary directory, and (through the callback of the handler) the surrounding
  application.  All three are fields of one explicit state that every function takes and
  returns.  Operating-system calls that may fail get their outcome from an explicit
  environment, so that every early return of the source is a branch of the model.
\<close>

subsection \<open>Numbers and their decimal and hexadecimal text\<close>

type_synonym uint64 = "64 word"

text \<open>\<^verbatim>\<open>strconv.FormatUint(v, 10)\<close>: the decimal digits of \<open>v\<close>, no leading zero.\<close>

fun digits :: "nat \<Rightarrow> string" where
  "digits n =
     (if n < 10 then [''0123456789'' ! n]
      else digits (n div 10) @ [''0123456789'' ! (n mod 10)])"

declare digits.simps [simp del]

definition FormatUint :: "uint64 \<Rightarrow> string" where
  "FormatUint v = digits (unat v)"

text \<open>
  \<^verbatim>\<open>strconv.ParseUint(s, 10, 64)\<close>: a non-empty string of decimal digits whose value
  fits 64 bits; no sign, no underscore, no blank.  \<open>None\<close> is the error return.
\<close>

definition isDigit :: "char \<Rightarrow> bool" where
  "isDigit c = (c \<in> set ''0123456789'')"

definition digitVal :: "char \<Rightarrow> nat" where
  "digitVal c = length (takeWhile (\<lambda>d. d \<noteq> c) ''0123456789'')"

definition decimalVal :: "string \<Rightarrow> nat" where
  "decimalVal s = foldl (\<lambda>a c. 10 * a + digitVal c) 0 s"

definition ParseUint :: "string \<Rightarrow> uint64 option" where
  "ParseUint s =
     (if s = [] \<or> \<not> list_all isDigit s then None
      else if decimalVal s < 2 ^ 64 then Some (of_nat (decimalVal s))
      else None)"

text \<open>The eight hexadecimal digits of a BITS error code or context, after \<open>0x\<close>.\<close>

definition hex8 :: "nat \<Rightarrow> string" where
  "hex8 n =
     ''0x'' @ map (\<lambda>i. ''0123456789abcdef'' ! (n div 16 ^ i mod 16)) [7, 6, 5, 4, 3, 2, 1, 0]"

subsection \<open>Strings and paths\<close>

text \<open>\<^verbatim>\<open>strings.Split(s, " ")\<close>: the pieces between single separator characters; never
  the empty list, and an empty piece for every separator that has nothing before it.\<close>

fun Split :: "string \<Rightarrow> char \<Rightarrow> string list" where
  "Split [] sep = [[]]"
| "Split (c # cs) sep =
     (if c = sep then [] # Split cs sep
      else (case Split cs sep of
              [] \<Rightarrow> [[c]]
            | t # ts \<Rightarrow> (c # t) # ts))"

text \<open>\<^verbatim>\<open>path.Split\<close>: the text up to and including the last slash, and the text after it.\<close>

definition path_Split :: "string \<Rightarrow> string \<times> string" where
  "path_Split p =
     (rev (dropWhile (\<lambda>c. c \<noteq> CHR ''/'') (rev p)),
      rev (takeWhile (\<lambda>c. c \<noteq> CHR ''/'') (rev p)))"

text \<open>
  Functions of Go's standard library that the handler calls and that are taken as given:
  lower-casing (Unicode aware in Go), regular-expression matching (\<open>None\<close>: the pattern
  does not compile), and the joining and normalising of paths (\<^verbatim>\<open>filepath.Abs\<close> may
  fail).
\<close>

record Lib =
  strings_ToLower :: "string \<Rightarrow> string"
  regexp_MatchString :: "string \<Rightarrow> string \<Rightarrow> bool option"
  path_Join :: "string \<Rightarrow> string \<Rightarrow> string"
  filepath_Join :: "string \<Rightarrow> string \<Rightarrow> string"
  filepath_Abs :: "string \<Rightarrow> string option"

subsection \<open>Configuration, requests, events and the state\<close>

record Config =
  TempDir :: string
  AllowedMethod :: string
  Protocol :: string
  MaxSize :: uint64
  Allowed :: "string list"
  Disallowed :: "string list"

text \<open>The handler: its configuration, and whether a callback is installed
  (\<^verbatim>\<open>b.callback != nil\<close>).\<close>

record Handler =
  cfg :: Config
  callback :: bool

datatype Event = EventCreateSession | EventRecieveFile | EventCancelSession | EventCloseSession

text \<open>The request as the handler reads it.  Header names are looked up as the source
  writes them; Go canonicalises them the same way when storing and when reading.\<close>

record Request =
  Method :: string
  RequestURI :: string
  Header :: "(string \<times> string) list"
  Body :: string

definition Get :: "Request \<Rightarrow> string \<Rightarrow> string" where
  "Get r k = (case map_of (Header r) k of None \<Rightarrow> [] | Some v \<Rightarrow> v)"

text \<open>
  What can be observed of a request besides the response and the files, in the order in
  which it happens: a call of the callback, the explicit \<^verbatim>\<open>file.Close()\<close> of a finished
  upload (the deferred close on return is not recorded), the sending of the response
  status and headers, and a run-time panic of the handler.
\<close>

datatype Action =
    Callback Event string string
  | FileClose string
  | WroteHeader nat
  | RuntimePanic

text \<open>
  The state: the response under construction (\<open>header\<close>, \<open>status\<close>, \<open>body\<close>; the
  status is \<open>None\<close> until it is written), the directories and the files (with their
  contents) of the file system, and the trace of actions.
\<close>

record State =
  header :: "(string \<times> string) list"
  status :: "nat option"
  body :: string
  dirs :: "string set"
  files :: "string \<rightharpoonup> string"
  trace :: "Action list"

text \<open>
  The outcome of the calls that the operating system may fail, for one request:
  the freshly minted session id (\<open>None\<close>: the random source failed), and whether
  \<^verbatim>\<open>httputil.DumpRequest\<close>, \<^verbatim>\<open>os.MkdirAll\<close>, the \<^verbatim>\<open>os.Stat\<close> inside \<^verbatim>\<open>exists\<close>,
  \<^verbatim>\<open>ioutil.ReadAll\<close>, \<^verbatim>\<open>os.OpenFile\<close> and \<^verbatim>\<open>file.Stat\<close> fail.  \<^verbatim>\<open>file.Write\<close> writes
  everything (\<open>Write_short = None\<close>) or only so many bytes, and reports an error or not.
\<close>

record Env =
  newUUID :: "string option"
  DumpRequest_fails :: bool
  MkdirAll_fails :: bool
  exists_fails :: "string \<Rightarrow> bool"
  ReadAll_fails :: bool
  OpenFile_fails :: bool
  Stat_fails :: bool
  Write_short :: "nat option"
  Write_fails :: bool

subsection \<open>The response writer\<close>

definition Header_Add :: "string \<Rightarrow> string \<Rightarrow> State \<Rightarrow> State" where
  "Header_Add k v s = s\<lparr>header := header s @ [(k, v)]\<rparr>"

definition Header_Del :: "string \<Rightarrow> State \<Rightarrow> State" where
  "Header_Del k s = s\<lparr>header := filter (\<lambda>kv. fst kv \<noteq> k) (header s)\<rparr>"

definition Header_Set :: "string \<Rightarrow> string \<Rightarrow> State \<Rightarrow> State" where
  "Header_Set k v s = Header_Add k v (Header_Del k s)"

text \<open>\<^verbatim>\<open>w.WriteHeader(code)\<close> sends status and headers once; a second call changes nothing.\<close>

definition WriteHeader :: "nat \<Rightarrow> State \<Rightarrow> State" where
  "WriteHeader code s =
     (if status s = None
      then s\<lparr>status := Some code, trace := trace s @ [WroteHeader code]\<rparr>
      else s)"

text \<open>\<^verbatim>\<open>w.Write(bs)\<close> sends status 200 first when no status has been written.\<close>

definition Write :: "string \<Rightarrow> State \<Rightarrow> State" where
  "Write bs s = (let s' = WriteHeader 200 s in s'\<lparr>body := body s' @ bs\<rparr>)"

text \<open>\<^verbatim>\<open>http.Error(w, msg, code)\<close> of Go's \<^verbatim>\<open>net/http\<close>: a plain-text response whose body
  is the message and a newline.\<close>

definition http_Error :: "string \<Rightarrow> nat \<Rightarrow> State \<Rightarrow> State" where
  "http_Error msg code s =
     Write (msg @ [CHR 0x0A])
       (WriteHeader code
         (Header_Set ''X-Content-Type-Options'' ''nosniff''
           (Header_Set ''Content-Type'' ''text/plain; charset=utf-8''
             (Header_Del ''Content-Length'' s))))"

subsection \<open>Helpers of the repository that are not part of handler.go\<close>

text \<open>Modelled from the spec: the constant \<^verbatim>\<open>ErrorContextRemoteFile\<close>, declared outside
  handler.go; the spec gives its value, \<open>0x00000005\<close>, the remote file context.\<close>

definition ErrorContextRemoteFile :: nat where
  "ErrorContextRemoteFile = 5"

text \<open>Modelled from the spec: the function \<^verbatim>\<open>bitsError\<close>, defined outside handler.go.
  The spec's error responder: the headers \<^verbatim>\<open>BITS-Packet-Type: Ack\<close>,
  \<^verbatim>\<open>BITS-Session-Id\<close> (the id or empty), \<^verbatim>\<open>BITS-Error-Code\<close> and
  \<^verbatim>\<open>BITS-Error-Context\<close> (eight hexadecimal digits each), the HTTP status of the error
  kind, and an empty body.\<close>

definition bitsError :: "string \<Rightarrow> nat \<Rightarrow> nat \<Rightarrow> nat \<Rightarrow> State \<Rightarrow> State" where
  "bitsError uuid code errorCode context s =
     Write []
       (WriteHeader code
         (Header_Add ''BITS-Error-Context'' (hex8 context)
           (Header_Add ''BITS-Error-Code'' (hex8 errorCode)
             (Header_Add ''BITS-Session-Id'' uuid
               (Header_Add ''BITS-Packet-Type'' ''Ack'' s)))))"

text \<open>Modelled from the spec: the function \<^verbatim>\<open>isValidUUID\<close>, defined outside handler.go.
  The spec's canonical form of a session id: braces, lower-case hexadecimal digits in
  groups of 8, 4, 4, 4 and 12, hyphens between the groups.\<close>

definition isValidUUID :: "string \<Rightarrow> bool" where
  "isValidUUID u =
     list_all2 (\<lambda>p c. if p = CHR ''x'' then c \<in> set ''0123456789abcdef'' else c = p)
       ''{xxxxxxxx-xxxx-xxxx-xxxx-xxxxxxxxxxxx}'' u"

text \<open>Modelled from the spec: the function \<^verbatim>\<open>exists\<close>, defined outside handler.go.
  The spec's presence check of a path (a directory or a file); the second component says
  whether the check itself failed.\<close>

definition exists :: "Env \<Rightarrow> State \<Rightarrow> string \<Rightarrow> bool \<times> bool" where
  "exists env s p = (p \<in> dirs s \<or> files s p \<noteq> None, exists_fails env p)"

text \<open>Modelled from the spec: the function \<^verbatim>\<open>parseRange\<close>, defined outside handler.go.
  The spec's parser of \<^verbatim>\<open>bytes A-B/C\<close> with three decimal unsigned 64-bit numbers; it
  fails when the text is malformed, when \<open>A > B\<close> and when \<open>C \<le> B\<close>.\<close>

definition parseRange :: "string \<Rightarrow> (uint64 \<times> uint64 \<times> uint64) option" where
  "parseRange t =
     (if take 6 t \<noteq> ''bytes '' then None
      else
        let rest = drop 6 t;
            a = takeWhile (\<lambda>c. c \<noteq> CHR ''-'') rest;
            rest1 = dropWhile (\<lambda>c. c \<noteq> CHR ''-'') rest;
            b = takeWhile (\<lambda>c. c \<noteq> CHR ''/'') (tl rest1);
            rest2 = dropWhile (\<lambda>c. c \<noteq> CHR ''/'') (tl rest1)
        in if rest1 = [] \<or> rest2 = [] then None
           else (case (ParseUint a, ParseUint b, ParseUint (tl rest2)) of
                   (Some A, Some B, Some C) \<Rightarrow>
                     if A > B \<or> C \<le> B then None else Some (A, B, C)
                 | _ \<Rightarrow> None))"

subsection \<open>Effects on the file system and the callback\<close>

text \<open>\<^verbatim>\<open>os.MkdirAll(p, 0755)\<close>: the directory exists afterwards, unless the call fails.\<close>

definition MkdirAll :: "Env \<Rightarrow> string \<Rightarrow> State \<Rightarrow> State option" where
  "MkdirAll env p s =
     (if MkdirAll_fails env then None else Some (s\<lparr>dirs := insert p (dirs s)\<rparr>))"

text \<open>\<^verbatim>\<open>if b.callback != nil { b.callback(event, uuid, path) }\<close>\<close>

definition doCallback :: "Handler \<Rightarrow> Event \<Rightarrow> string \<Rightarrow> string \<Rightarrow> State \<Rightarrow> State" where
  "doCallback h ev uuid p s =
     (if callback h then s\<lparr>trace := trace s @ [Callback ev uuid p]\<rparr> else s)"

definition fileBytes :: "State \<Rightarrow> string \<Rightarrow> string" where
  "fileBytes s p = (case files s p of None \<Rightarrow> [] | Some c \<Rightarrow> c)"

text \<open>The number of bytes that \<^verbatim>\<open>file.Write(chunk)\<close> writes in the environment.\<close>

definition writtenBytes :: "Env \<Rightarrow> string \<Rightarrow> nat" where
  "writtenBytes env chunk =
     (case Write_short env of None \<Rightarrow> length chunk | Some n \<Rightarrow> min n (length chunk))"

subsection \<open>Ping, Create-Session, Cancel-Session, Close-Session\<close>

definition bitsPing :: "State \<Rightarrow> State" where
  "bitsPing s = Write [] (Header_Add ''BITS-Packet-Type'' ''Ack'' s)"

text \<open>The loop of \<^verbatim>\<open>bitsCreate\<close> over the offered protocols: the loop variable is the
  function's own \<^verbatim>\<open>protocol\<close>, so after the loop it holds the matching token, or the
  last token when none matches.\<close>

fun protocolLoop :: "string \<Rightarrow> string list \<Rightarrow> string \<Rightarrow> string" where
  "protocolLoop want [] protocol = protocol"
| "protocolLoop want (p # ps) protocol =
     (if p = want then p else protocolLoop want ps p)"

definition bitsCreate :: "Lib \<Rightarrow> Handler \<Rightarrow> Env \<Rightarrow> Request \<Rightarrow> State \<Rightarrow> State" where
  "bitsCreate lib h env r s =
     (let protocols = Split (Get r ''BITS-Supported-Protocols'') CHR '' '';
          protocol = protocolLoop (Protocol (cfg h)) protocols []
      in if protocol \<noteq> Protocol (cfg h)
         then bitsError [] 400 0 ErrorContextRemoteFile s
         else (case newUUID env of
                 None \<Rightarrow> bitsError [] 500 0 ErrorContextRemoteFile s
               | Some uuid \<Rightarrow>
                   let tmpDir = path_Join lib (TempDir (cfg h)) uuid
                   in (case MkdirAll env tmpDir s of
                         None \<Rightarrow> bitsError [] 500 0 ErrorContextRemoteFile s
                       | Some s1 \<Rightarrow>
                           Write []
                             (Header_Add ''Accept-Encoding'' ''Identity''
                               (Header_Add ''BITS-Session-Id'' uuid
                                 (Header_Add ''BITS-Protocol'' protocol
                                   (Header_Add ''BITS-Packet-Type'' ''Ack''
                                     (doCallback h EventCreateSession uuid tmpDir s1))))))))"

definition bitsCancel :: "Lib \<Rightarrow> Handler \<Rightarrow> Env \<Rightarrow> Request \<Rightarrow> string \<Rightarrow> State \<Rightarrow> State" where
  "bitsCancel lib h env r uuid s =
     (if uuid = [] \<or> \<not> isValidUUID uuid
      then bitsError uuid 400 0 ErrorContextRemoteFile s
      else
        let destDir = path_Join lib (TempDir (cfg h)) uuid;
            (exist, err) = exists env s destDir
        in if err then bitsError uuid 400 0 ErrorContextRemoteFile s
           else if \<not> exist then bitsError uuid 400 0 ErrorContextRemoteFile s
           else Write []
                  (Header_Add ''BITS-Session-Id'' uuid
                    (Header_Add ''BITS-Packet-Type'' ''Ack''
                      (doCallback h EventCancelSession uuid destDir s))))"

definition bitsClose :: "Lib \<Rightarrow> Handler \<Rightarrow> Env \<Rightarrow> Request \<Rightarrow> string \<Rightarrow> State \<Rightarrow> State" where
  "bitsClose lib h env r uuid s =
     (if uuid = [] \<or> \<not> isValidUUID uuid
      then bitsError uuid 400 0 ErrorContextRemoteFile s
      else
        let destDir = path_Join lib (TempDir (cfg h)) uuid;
            (exist, err) = exists env s destDir
        in if err then bitsError uuid 400 0 ErrorContextRemoteFile s
           else if \<not> exist then bitsError uuid 400 0 ErrorContextRemoteFile s
           else Write []
                  (Header_Add ''BITS-Session-Id'' uuid
                    (Header_Add ''BITS-Packet-Type'' ''Ack''
                      (doCallback h EventCloseSession uuid destDir s))))"

subsection \<open>Fragment\<close>

text \<open>The two loops of \<^verbatim>\<open>bitsFragment\<close> over the configured patterns (lines 161 to 190).
  The loop over \<^verbatim>\<open>Disallowed\<close> says whether the handler returns from inside it: on a
  pattern that does not compile, or on a match.  The loop over \<^verbatim>\<open>Allowed\<close> returns from
  the handler on a pattern that does not compile (\<open>None\<close>), and otherwise yields the
  variable \<^verbatim>\<open>allowed\<close>.\<close>

fun disallowedLoop :: "Lib \<Rightarrow> string list \<Rightarrow> string \<Rightarrow> bool" where
  "disallowedLoop lib [] filename = False"
| "disallowedLoop lib (reg # regs) filename =
     (case regexp_MatchString lib reg filename of
        None \<Rightarrow> True
      | Some match \<Rightarrow> if match then True else disallowedLoop lib regs filename)"

fun allowedLoop :: "Lib \<Rightarrow> string list \<Rightarrow> string \<Rightarrow> bool option" where
  "allowedLoop lib [] filename = Some False"
| "allowedLoop lib (reg # regs) filename =
     (case regexp_MatchString lib reg filename of
        None \<Rightarrow> None
      | Some match \<Rightarrow> if match then Some True else allowedLoop lib regs filename)"

text \<open>The path of the upload file (lines 198 to 204): the session directory joined with the
  file name, made absolute when that succeeds.\<close>

definition fragmentPath :: "Lib \<Rightarrow> Handler \<Rightarrow> Request \<Rightarrow> string \<Rightarrow> string" where
  "fragmentPath lib h r uuid =
     (let joined = filepath_Join lib (path_Join lib (TempDir (cfg h)) uuid)
                     (snd (path_Split (RequestURI r)))
      in case filepath_Abs lib joined of None \<Rightarrow> joined | Some p \<Rightarrow> p)"

text \<open>What the checks of a fragment request establish for the rest of the handler.\<close>

record Fragment =
  src :: string
  rangeStart :: uint64
  rangeEnd :: uint64
  fileLength :: uint64
  fragmentSize :: uint64
  data :: string

text \<open>
  \<^verbatim>\<open>bitsFragment\<close> is one long function; it is embedded as three consecutive parts.
  A part yields \<open>Inl\<close> of the final state where the source returns, and \<open>Inr\<close> of the
  values the next part goes on with.  The first part is lines 125 to 249: the checks of
  the session, the file name, the two headers and the body.
\<close>

definition bitsFragment_checks ::
  "Lib \<Rightarrow> Handler \<Rightarrow> Env \<Rightarrow> Request \<Rightarrow> string \<Rightarrow> State \<Rightarrow> State + (Fragment \<times> State)" where
  "bitsFragment_checks lib h env r uuid s =
     (if uuid = [] \<or> \<not> isValidUUID uuid
      then Inl (bitsError [] 400 0 ErrorContextRemoteFile s)
      else
        let srcDir = path_Join lib (TempDir (cfg h)) uuid
        in if \<not> fst (exists env s srcDir)
           then Inl (bitsError uuid 400 0 ErrorContextRemoteFile s)
           else (case MkdirAll env srcDir s of
             None \<Rightarrow> Inl (bitsError [] 500 0 ErrorContextRemoteFile s)
           | Some s1 \<Rightarrow>
               let filename = snd (path_Split (RequestURI r))
               in if filename = []
                  then Inl (bitsError uuid 400 0 ErrorContextRemoteFile s1)
                  else if disallowedLoop lib (Disallowed (cfg h)) filename
                  then Inl (bitsError uuid 400 0 ErrorContextRemoteFile s1)
                  else (case allowedLoop lib (Allowed (cfg h)) filename of
                    None \<Rightarrow> Inl (bitsError uuid 400 0 ErrorContextRemoteFile s1)
                  | Some allowed \<Rightarrow>
                      if \<not> allowed
                      then Inl (bitsError uuid 400 0 ErrorContextRemoteFile s1)
                      else
                        let joined = filepath_Join lib srcDir filename;
                            path = (case filepath_Abs lib joined of
                                      None \<Rightarrow> joined
                                    | Some p \<Rightarrow> p)
                        in (case parseRange (Get r ''Content-Range'') of
                          None \<Rightarrow> Inl (bitsError uuid 400 0 ErrorContextRemoteFile s1)
                        | Some (rStart, rEnd, fLength) \<Rightarrow>
                            if MaxSize (cfg h) > 0 \<and> fLength > MaxSize (cfg h)
                            then Inl (bitsError uuid 413 0 ErrorContextRemoteFile s1)
                            else (case ParseUint (Get r ''Content-Length'') of
                              None \<Rightarrow> Inl (bitsError uuid 400 0 ErrorContextRemoteFile s1)
                            | Some fSize \<Rightarrow>
                                if ReadAll_fails env
                                then Inl (bitsError uuid 400 0 ErrorContextRemoteFile s1)
                                else if of_nat (length (Body r)) \<noteq> fSize
                                then Inl (bitsError uuid 400 0 ErrorContextRemoteFile s1)
                                else if rEnd - rStart + 1 \<noteq> fSize
                                then Inl (bitsError uuid 400 0 ErrorContextRemoteFile s1)
                                else Inr (\<lparr>src = path, rangeStart = rStart, rangeEnd = rEnd,
                                           fileLength = fLength, fragmentSize = fSize,
                                           data = Body r\<rparr>, s1))))))"

text \<open>The second part, lines 251 to 294: the file is created when it does not exist, and
  opened for appending otherwise; the result is \<^verbatim>\<open>fileSize\<close>.  Opening a path that is
  a directory fails.\<close>

definition bitsFragment_open ::
  "Env \<Rightarrow> string \<Rightarrow> Fragment \<Rightarrow> State \<Rightarrow> State + (uint64 \<times> State)" where
  "bitsFragment_open env uuid f s =
     (let (exist, err) = exists env s (src f)
      in if err then Inl (bitsError uuid 400 0 ErrorContextRemoteFile s)
         else if exist \<noteq> True
         then (if OpenFile_fails env
               then Inl (bitsError uuid 500 0 ErrorContextRemoteFile s)
               else Inr (0, s\<lparr>files := (files s)(src f \<mapsto> [])\<rparr>))
         else (if OpenFile_fails env \<or> files s (src f) = None
               then Inl (bitsError uuid 500 0 ErrorContextRemoteFile s)
               else if Stat_fails env
               then Inl (bitsError uuid 500 0 ErrorContextRemoteFile s)
               else Inr (of_nat (length (fileBytes s (src f))), s)))"

text \<open>The third part, lines 296 to 351: the sanity checks of the range against the size of
  the file, the write of \<^verbatim>\<open>data[dataOffset:]\<close> (a slice expression that panics when
  the offset is beyond the length of the data), the check of the number of bytes written,
  the completion of the file, and the acknowledgement.\<close>

definition bitsFragment_write ::
  "Handler \<Rightarrow> Env \<Rightarrow> string \<Rightarrow> Fragment \<Rightarrow> uint64 \<Rightarrow> State \<Rightarrow> State" where
  "bitsFragment_write h env uuid f fileSize s =
     (if rangeEnd f < fileSize
      then bitsError uuid 416 0 ErrorContextRemoteFile
             (Header_Add ''BITS-Recieved-Content-Range'' (FormatUint fileSize) s)
      else if rangeStart f > fileSize
      then bitsError uuid 416 0 ErrorContextRemoteFile
             (Header_Add ''BITS-Recieved-Content-Range'' (FormatUint fileSize) s)
      else
        let dataOffset = fileSize - rangeStart f
        in if length (data f) < unat dataOffset
           then s\<lparr>trace := trace s @ [RuntimePanic]\<rparr>
           else
             let chunk = drop (unat dataOffset) (data f);
                 wr = (case Write_short env of
                         None \<Rightarrow> length chunk
                       | Some n \<Rightarrow> min n (length chunk));
                 s1 = s\<lparr>files := (files s)(src f \<mapsto> fileBytes s (src f) @ take wr chunk)\<rparr>
             in if Write_fails env
                then bitsError uuid 500 0 ErrorContextRemoteFile s1
                else
                  let written = (of_nat wr :: uint64)
                  in if written \<noteq> fragmentSize f - dataOffset
                     then bitsError uuid 500 0 ErrorContextRemoteFile s1
                     else
                       let s2 = (if rangeEnd f + 1 = fileLength f
                                 then doCallback h EventRecieveFile uuid (src f)
                                        (s1\<lparr>trace := trace s1 @ [FileClose (src f)]\<rparr>)
                                 else s1)
                       in Write []
                            (Header_Add ''BITS-Received-Content-Range''
                                (FormatUint (fileSize + written))
                              (Header_Add ''BITS-Session-Id'' uuid
                                (Header_Add ''BITS-Packet-Type'' ''Ack'' s2))))"

definition bitsFragment ::
  "Lib \<Rightarrow> Handler \<Rightarrow> Env \<Rightarrow> Request \<Rightarrow> string \<Rightarrow> State \<Rightarrow> State" where
  "bitsFragment lib h env r uuid s =
     (case bitsFragment_checks lib h env r uuid s of
        Inl s' \<Rightarrow> s'
      | Inr (f, s1) \<Rightarrow>
          (case bitsFragment_open env uuid f s1 of
             Inl s' \<Rightarrow> s'
           | Inr (fileSize, s2) \<Rightarrow> bitsFragment_write h env uuid f fileSize s2))"

subsection \<open>The dispatcher\<close>

definition ServeHTTP :: "Lib \<Rightarrow> Handler \<Rightarrow> Env \<Rightarrow> Request \<Rightarrow> State \<Rightarrow> State" where
  "ServeHTTP lib h env r s =
     (if DumpRequest_fails env then http_Error ''Internal Server error'' 500 s
      else if Method r \<noteq> AllowedMethod (cfg h) then http_Error ''Method not allowed'' 405 s
      else
        let packetType = strings_ToLower lib (Get r ''BITS-Packet-Type'');
            sessionID = Get r ''BITS-Session-Id''
        in if packetType = ''ping'' then bitsPing s
           else if packetType = ''create-session'' then bitsCreate lib h env r s
           else if packetType = ''cancel-session'' then bitsCancel lib h env r sessionID s
           else if packetType = ''close-session'' then bitsClose lib h env r sessionID s
           else if packetType = ''fragment'' then bitsFragment lib h env r sessionID s
           else bitsError [] 400 0 ErrorContextRemoteFile s)"

subsection \<open>The preconditions of a fragment request, as the specification lists them\<close>

text \<open>
  The specification lists nine preconditions of a fragment request, checked in order, the
  first failure deciding the response.  \<open>firstFailure\<close> follows that list and not the
  code: it names the first precondition of the list that does not hold.  Whether the file
  name passes the filter is what the two loops over the patterns say; a body that cannot
  be read counts as a body of the wrong length.
\<close>

datatype Precondition =
    SessionIdWellFormed | SessionDirExists | FilenameNonEmpty | FilterPasses
  | ContentRangeParses | WithinMaxSize | ContentLengthParses | BodyLengthMatches
  | RangeSizeMatches

definition firstFailure ::
  "Lib \<Rightarrow> Handler \<Rightarrow> Env \<Rightarrow> Request \<Rightarrow> string \<Rightarrow> State \<Rightarrow> Precondition option" where
  "firstFailure lib h env r uuid s =
     (let filename = snd (path_Split (RequestURI r))
      in if \<not> isValidUUID uuid then Some SessionIdWellFormed
         else if \<not> fst (exists env s (path_Join lib (TempDir (cfg h)) uuid))
         then Some SessionDirExists
         else if filename = [] then Some FilenameNonEmpty
         else if disallowedLoop lib (Disallowed (cfg h)) filename
                 \<or> allowedLoop lib (Allowed (cfg h)) filename \<noteq> Some True
         then Some FilterPasses
         else (case parseRange (Get r ''Content-Range'') of
                 None \<Rightarrow> Some ContentRangeParses
               | Some (a, b, c) \<Rightarrow>
                   if \<not> (MaxSize (cfg h) = 0 \<or> c \<le> MaxSize (cfg h)) then Some WithinMaxSize
                   else (case ParseUint (Get r ''Content-Length'') of
                           None \<Rightarrow> Some ContentLengthParses
                         | Some n \<Rightarrow>
                             if ReadAll_fails env \<or> of_nat (length (Body r)) \<noteq> n
                             then Some BodyLengthMatches
                             else if b - a + 1 \<noteq> n then Some RangeSizeMatches
                             else None)))"

definition failureStatus :: "Precondition \<Rightarrow> nat" where
  "failureStatus p = (if p = WithinMaxSize then 413 else 400)"

subsection \<open>Whitespace-separated tokens and error acknowledgements, as the specification words them\<close>

text \<open>The specification calls \<^verbatim>\<open>BITS-Supported-Protocols\<close> a whitespace-separated list.
  \<open>Fields\<close> follows these words and not the code: the tokens between runs of blanks,
  tabs and line breaks.\<close>

definition isSpace :: "char \<Rightarrow> bool" where
  "isSpace c = (c \<in> set [CHR '' '', CHR 0x09, CHR 0x0A, CHR 0x0B, CHR 0x0C, CHR 0x0D])"

function Fields :: "string \<Rightarrow> string list" where
  "Fields [] = []"
| "Fields (c # cs) =
     (if isSpace c then Fields cs
      else takeWhile (\<lambda>d. \<not> isSpace d) (c # cs) # Fields (dropWhile (\<lambda>d. \<not> isSpace d) cs))"
  by pat_completeness auto
termination
  by (relation "measure length") (auto simp: le_imp_less_Suc length_dropWhile_le)

text \<open>The specification's error response: an empty body and the four headers
  \<^verbatim>\<open>BITS-Packet-Type: Ack\<close>, \<^verbatim>\<open>BITS-Session-Id\<close> (with any value),
  \<^verbatim>\<open>BITS-Error-Code\<close> and \<^verbatim>\<open>BITS-Error-Context: 0x00000005\<close>.\<close>

definition errorAck :: "State \<Rightarrow> bool" where
  "errorAck s' =
     (body s' = []
      \<and> (''BITS-Packet-Type'', ''Ack'') \<in> set (header s')
      \<and> ''BITS-Session-Id'' \<in> fst ` set (header s')
      \<and> (''BITS-Error-Code'', ''0x00000000'') \<in> set (header s')
      \<and> (''BITS-Error-Context'', ''0x00000005'') \<in> set (header s'))"

subsection \<open>Final fragments and runs of requests\<close>

text \<open>The test of line 334 on the range that the request announces: the fragment is the
  last one of its file.\<close>

definition isFinal :: "Request \<Rightarrow> bool" where
  "isFinal r =
     (case parseRange (Get r ''Content-Range'') of
        None \<Rightarrow> False
      | Some (a, b, c) \<Rightarrow> b + 1 = c)"

text \<open>The calls of the callback with \<open>EventRecieveFile\<close> for the file \<open>p\<close> in a trace:
  the session ids they were made with, in order.\<close>

fun receiveCalls :: "string \<Rightarrow> Action list \<Rightarrow> string list" where
  "receiveCalls p [] = []"
| "receiveCalls p (Callback ev u q # tr) =
     (if ev = EventRecieveFile \<and> q = p then u # receiveCalls p tr else receiveCalls p tr)"
| "receiveCalls p (FileClose q # tr) = receiveCalls p tr"
| "receiveCalls p (WroteHeader c # tr) = receiveCalls p tr"
| "receiveCalls p (RuntimePanic # tr) = receiveCalls p tr"

text \<open>The server gives every request a response of its own: no header, no status and no
  body yet.  The directories, the files and the trace are those the request before left.
  \<open>serveAll\<close> lists the states after each request of a run.\<close>

definition newResponse :: "State \<Rightarrow> State" where
  "newResponse s = s\<lparr>header := [], status := None, body := []\<rparr>"

fun serveAll :: "Lib \<Rightarrow> Handler \<Rightarrow> (Env \<times> Request) list \<Rightarrow> State \<Rightarrow> State list" where
  "serveAll lib h [] s = []"
| "serveAll lib h ((env, r) # rest) s =
     ServeHTTP lib h env r (newResponse s)
       # serveAll lib h rest (ServeHTTP lib h env r (newResponse s))"

text \<open>A request is a final fragment for the file \<open>p\<close> that the handler acknowledged;
  \<open>finalAcks\<close> counts them in a run.\<close>

definition finalAck :: "Lib \<Rightarrow> Handler \<Rightarrow> string \<Rightarrow> Request \<Rightarrow> State \<Rightarrow> bool" where
  "finalAck lib h p r s' =
     (status s' = Some 200
      \<and> strings_ToLower lib (Get r ''BITS-Packet-Type'') = ''fragment''
      \<and> fragmentPath lib h r (Get r ''BITS-Session-Id'') = p
      \<and> isFinal r)"

fun finalAcks :: "Lib \<Rightarrow> Handler \<Rightarrow> string \<Rightarrow> (Env \<times> Request) list \<Rightarrow> State \<Rightarrow> nat" where
  "finalAcks lib h p [] s = 0"
| "finalAcks lib h p ((env, r) # rest) s =
     (if finalAck lib h p r (ServeHTTP lib h env r (newResponse s)) then 1 else 0)
       + finalAcks lib h p rest (ServeHTTP lib h env r (newResponse s))"

text \<open>A request that names the file \<open>p\<close> and carries a range announces the total
  length \<open>L\<close>.\<close>

definition sameLength :: "Lib \<Rightarrow> Handler \<Rightarrow> string \<Rightarrow> uint64 \<Rightarrow> Request \<Rightarrow> bool" where
  "sameLength lib h p L r =
     (case parseRange (Get r ''Content-Range'') of
        None \<Rightarrow> True
      | Some (a, b, c) \<Rightarrow> fragmentPath lib h r (Get r ''BITS-Session-Id'') \<noteq> p \<or> c = L)"

subsection \<open>Example values\<close>

text \<open>Concrete values on which the theorems below are exercised.  The library functions
  are simple stand-ins: lower-casing of ASCII letters, a matcher that knows the two
  patterns of the examples (\<open>[.]txt$\<close> and \<open>^secret\<close>; any other pattern counts as one
  that does not compile), and joining with a slash.\<close>

definition asciiToLower :: "string \<Rightarrow> string" where
  "asciiToLower t =
     map (\<lambda>c. case map_of (zip ''ABCDEFGHIJKLMNOPQRSTUVWXYZ'' ''abcdefghijklmnopqrstuvwxyz'') c of
                None \<Rightarrow> c
              | Some d \<Rightarrow> d) t"

definition exMatch :: "string \<Rightarrow> string \<Rightarrow> bool option" where
  "exMatch re t =
     (if re = ''[.]txt$'' then Some (drop (length t - 4) t = ''.txt'')
      else if re = ''^secret'' then Some (take 6 t = ''secret'')
      else None)"

definition exLib :: Lib where
  "exLib = \<lparr>strings_ToLower = asciiToLower, regexp_MatchString = exMatch,
            path_Join = (\<lambda>a b. a @ ''/'' @ b), filepath_Join = (\<lambda>a b. a @ ''/'' @ b),
            filepath_Abs = Some\<rparr>"

definition exConfig :: Config where
  "exConfig = \<lparr>TempDir = ''/tmp/bits'', AllowedMethod = ''BITS_POST'',
               Protocol = ''{7df0354d-249b-430f-820d-3d2a9bef4931}'', MaxSize = 100,
               Allowed = [''[.]txt$''], Disallowed = [''^secret'']\<rparr>"

definition exHandler :: Handler where
  "exHandler = \<lparr>cfg = exConfig, callback = True\<rparr>"

definition exId :: string where
  "exId = ''{0a1b2c3d-0000-4000-8000-00000000002f}''"

definition exEnv :: Env where
  "exEnv = \<lparr>newUUID = Some exId, DumpRequest_fails = False, MkdirAll_fails = False,
            exists_fails = (\<lambda>p. False), ReadAll_fails = False, OpenFile_fails = False,
            Stat_fails = False, Write_short = None, Write_fails = False\<rparr>"

text \<open>A state without any session, and the state after the session \<open>exId\<close> was created;
  both with a fresh response.\<close>

definition exEmpty :: State where
  "exEmpty = \<lparr>header = [], status = None, body = [], dirs = {''/tmp/bits''},
              files = Map.empty, trace = []\<rparr>"

definition exSession :: State where
  "exSession = exEmpty\<lparr>dirs := {''/tmp/bits'', ''/tmp/bits/{0a1b2c3d-0000-4000-8000-00000000002f}''}\<rparr>"

text \<open>A fragment request for the session \<open>exId\<close>, given its URI, its \<^verbatim>\<open>Content-Range\<close>,
  its \<^verbatim>\<open>Content-Length\<close> and its body.\<close>

definition exFragment :: "string \<Rightarrow> string \<Rightarrow> string \<Rightarrow> string \<Rightarrow> Request" where
  "exFragment uri contentRange contentLength bytes =
     \<lparr>Method = ''BITS_POST'', RequestURI = uri,
      Header = [(''BITS-Packet-Type'', ''Fragment''), (''BITS-Session-Id'', exId),
                (''Content-Range'', contentRange), (''Content-Length'', contentLength)],
      Body = bytes\<rparr>"

text \<open>The upload file of \<open>hello.txt\<close> in the session \<open>exId\<close>, and the state in which
  the first three bytes of it are on disk.\<close>

abbreviation (input) exDir :: string where
  "exDir \<equiv> ''/tmp/bits/{0a1b2c3d-0000-4000-8000-00000000002f}''"

definition exHelloPath :: string where
  "exHelloPath = ''/tmp/bits/{0a1b2c3d-0000-4000-8000-00000000002f}/hello.txt''"

definition exPartial :: State where
  "exPartial = exSession\<lparr>files := [exHelloPath \<mapsto> ''Hel'']\<rparr>"

text \<open>The state in which the ten bytes of \<open>hello.txt\<close> are on disk.\<close>

definition exDone :: State where
  "exDone = exSession\<lparr>files := [exHelloPath \<mapsto> ''HelloWorld'']\<rparr>"

text \<open>A Create-Session request that offers the given protocols, a request with another
  method, and a request with an unknown packet type.\<close>

definition exCreate :: "string \<Rightarrow> Request" where
  "exCreate protocols =
     \<lparr>Method = ''BITS_POST'', RequestURI = ''/up/hello.txt'',
      Header = [(''BITS-Packet-Type'', ''Create-Session''),
                (''BITS-Supported-Protocols'', protocols)],
      Body = []\<rparr>"

definition exGet :: Request where
  "exGet = \<lparr>Method = ''GET'', RequestURI = ''/up/hello.txt'',
            Header = [(''BITS-Packet-Type'', ''Ping'')], Body = []\<rparr>"

definition exBogus :: Request where
  "exBogus = \<lparr>Method = ''BITS_POST'', RequestURI = ''/up/hello.txt'',
              Header = [(''BITS-Packet-Type'', ''Bogus'')], Body = []\<rparr>"

section \<open>Properties\<close>

subsection \<open>The response writer and the helpers\<close>

lemma hex8_0: "hex8 0 = ''0x00000000''"
  by (simp add: hex8_def)

lemma hex8_5: "hex8 5 = ''0x00000005''"
  by (simp add: hex8_def)

lemma Header_Add_fields [simp]:
  "header (Header_Add k v s) = header s @ [(k, v)]"
  "status (Header_Add k v s) = status s"
  "body (Header_Add k v s) = body s"
  "dirs (Header_Add k v s) = dirs s"
  "files (Header_Add k v s) = files s"
  "trace (Header_Add k v s) = trace s"
  by (simp_all add: Header_Add_def)

lemma WriteHeader_fields [simp]:
  "header (WriteHeader c s) = header s"
  "status (WriteHeader c s) = (if status s = None then Some c else status s)"
  "body (WriteHeader c s) = body s"
  "dirs (WriteHeader c s) = dirs s"
  "files (WriteHeader c s) = files s"
  "trace (WriteHeader c s) = (if status s = None then trace s @ [WroteHeader c] else trace s)"
  by (simp_all add: WriteHeader_def)

lemma Write_fields [simp]:
  "header (Write bs s) = header s"
  "status (Write bs s) = (if status s = None then Some 200 else status s)"
  "body (Write bs s) = body s @ bs"
  "dirs (Write bs s) = dirs s"
  "files (Write bs s) = files s"
  "trace (Write bs s) = (if status s = None then trace s @ [WroteHeader 200] else trace s)"
  by (simp_all add: Write_def Let_def)

lemma bitsError_fields [simp]:
  "header (bitsError u c e x s) =
     header s @ [(''BITS-Packet-Type'', ''Ack''), (''BITS-Session-Id'', u),
                 (''BITS-Error-Code'', hex8 e), (''BITS-Error-Context'', hex8 x)]"
  "status (bitsError u c e x s) = (if status s = None then Some c else status s)"
  "body (bitsError u c e x s) = body s"
  "dirs (bitsError u c e x s) = dirs s"
  "files (bitsError u c e x s) = files s"
  "trace (bitsError u c e x s) = (if status s = None then trace s @ [WroteHeader c] else trace s)"
  by (simp_all add: bitsError_def)

lemma doCallback_fields [simp]:
  "header (doCallback h ev u p s) = header s"
  "status (doCallback h ev u p s) = status s"
  "body (doCallback h ev u p s) = body s"
  "dirs (doCallback h ev u p s) = dirs s"
  "files (doCallback h ev u p s) = files s"
  "trace (doCallback h ev u p s) = (if callback h then trace s @ [Callback ev u p] else trace s)"
  by (simp_all add: doCallback_def)

lemma isValidUUID_length: "isValidUUID u \<Longrightarrow> length u = 38"
  unfolding isValidUUID_def by (drule list_all2_lengthD) simp

lemma isValidUUID_nonempty: "isValidUUID u \<Longrightarrow> u \<noteq> []"
  by (drule isValidUUID_length) auto

lemma isValidUUID_exId: "isValidUUID exId"
  by (simp add: isValidUUID_def exId_def)

subsection \<open>Session gating\<close>

lemma bitsFragment_no_session:
  assumes "isValidUUID uuid"
      and "\<not> fst (exists env s (path_Join lib (TempDir (cfg h)) uuid))"
  shows "bitsFragment lib h env r uuid s = bitsError uuid 400 0 ErrorContextRemoteFile s"
  using assms isValidUUID_nonempty[OF assms(1)]
  by (simp add: bitsFragment_def bitsFragment_checks_def)

lemma bitsCancel_no_session:
  assumes "isValidUUID uuid"
      and "\<not> fst (exists env s (path_Join lib (TempDir (cfg h)) uuid))"
  shows "bitsCancel lib h env r uuid s = bitsError uuid 400 0 ErrorContextRemoteFile s"
  using assms isValidUUID_nonempty[OF assms(1)]
  by (simp add: bitsCancel_def Let_def case_prod_beta)

lemma bitsClose_no_session:
  assumes "isValidUUID uuid"
      and "\<not> fst (exists env s (path_Join lib (TempDir (cfg h)) uuid))"
  shows "bitsClose lib h env r uuid s = bitsError uuid 400 0 ErrorContextRemoteFile s"
  using assms isValidUUID_nonempty[OF assms(1)]
  by (simp add: bitsClose_def Let_def case_prod_beta)

text \<open>
  Claim C7.  A Fragment, Cancel-Session or Close-Session request with a well-formed
  session id whose directory below the temporary directory does not exist is answered
  with the error acknowledgement of status 400 (BadRequest); it leaves the files and the
  directories as they were, and the only action it adds to the trace is the sending of
  the response, so no callback is called.
\<close>

theorem C7_session_gating:
  assumes "isValidUUID uuid"
      and "\<not> fst (exists env s (path_Join lib (TempDir (cfg h)) uuid))"
      and "status s = None"
  shows "bitsFragment lib h env r uuid s = bitsError uuid 400 0 ErrorContextRemoteFile s
       \<and> bitsCancel lib h env r uuid s = bitsError uuid 400 0 ErrorContextRemoteFile s
       \<and> bitsClose lib h env r uuid s = bitsError uuid 400 0 ErrorContextRemoteFile s
       \<and> status (bitsError uuid 400 0 ErrorContextRemoteFile s) = Some 400
       \<and> files (bitsError uuid 400 0 ErrorContextRemoteFile s) = files s
       \<and> dirs (bitsError uuid 400 0 ErrorContextRemoteFile s) = dirs s
       \<and> trace (bitsError uuid 400 0 ErrorContextRemoteFile s) = trace s @ [WroteHeader 400]"
proof -
  note eqs = bitsFragment_no_session[OF assms(1,2)] bitsCancel_no_session[OF assms(1,2)]
    bitsClose_no_session[OF assms(1,2)]
  show ?thesis using eqs assms(3) by simp
qed

theorem C7_session_gating_witness:
  "isValidUUID exId
   \<and> \<not> fst (exists exEnv exEmpty (path_Join exLib (TempDir (cfg exHandler)) exId))
   \<and> status exEmpty = None
   \<and> status (bitsFragment exLib exHandler exEnv (exFragment ''/up/hello.txt'' ''bytes 0-4/10'' ''5'' ''Hello'') exId exEmpty) = Some 400
   \<and> status (bitsCancel exLib exHandler exEnv (exFragment ''/up/hello.txt'' ''bytes 0-4/10'' ''5'' ''Hello'') exId exEmpty) = Some 400
   \<and> status (bitsClose exLib exHandler exEnv (exFragment ''/up/hello.txt'' ''bytes 0-4/10'' ''5'' ''Hello'') exId exEmpty) = Some 400
   \<and> files (bitsFragment exLib exHandler exEnv (exFragment ''/up/hello.txt'' ''bytes 0-4/10'' ''5'' ''Hello'') exId exEmpty) = Map.empty
   \<and> trace (bitsFragment exLib exHandler exEnv (exFragment ''/up/hello.txt'' ''bytes 0-4/10'' ''5'' ''Hello'') exId exEmpty) = [WroteHeader 400]"
proof -
  have a: "isValidUUID exId" by (rule isValidUUID_exId)
  have b: "\<not> fst (exists exEnv exEmpty (path_Join exLib (TempDir (cfg exHandler)) exId))"
    by (simp add: exists_def exEnv_def exEmpty_def exLib_def exHandler_def exConfig_def exId_def)
  have c: "status exEmpty = None" by (simp add: exEmpty_def)
  have d: "files exEmpty = Map.empty" "trace exEmpty = []" by (simp_all add: exEmpty_def)
  show ?thesis
    using C7_session_gating[OF a b c, of "exFragment ''/up/hello.txt'' ''bytes 0-4/10'' ''5'' ''Hello''"] a b c d
    by simp
qed

subsection \<open>The parts of the fragment handler\<close>

lemma parseRange_bounds:
  assumes "parseRange t = Some (a, b, c)"
  shows "a \<le> b \<and> b < c"
  using assms
  by (auto simp: parseRange_def Let_def split: if_splits option.splits)

lemma word_range_arith:
  fixes rs re fl fsz :: uint64
  assumes "rs \<le> fsz" "fsz \<le> re" "re < fl"
  shows "unat (fsz - rs) = unat fsz - unat rs"
    and "unat (re - rs + 1) = unat re - unat rs + 1"
    and "fsz + ((re - rs + 1) - (fsz - rs)) = re + 1"
    and "fsz \<le> re + 1"
    and "re + 1 \<le> fl"
proof -
  show "unat (fsz - rs) = unat fsz - unat rs" using assms by (simp add: unat_sub)
  have le: "rs \<le> re" using assms by simp
  have lt: "unat re < unat fl" using assms by (simp add: word_less_nat_alt)
  have fl: "unat fl < 2 ^ 64" using unsigned_less[of fl, where ?'a=nat] by simp
  have "unat (re - rs) = unat re - unat rs" using le by (simp add: unat_sub)
  moreover have "unat (re - rs) + unat (1::uint64) < 2 ^ LENGTH(64)"
    using lt fl calculation by simp
  ultimately show "unat (re - rs + 1) = unat re - unat rs + 1"
    by (simp add: unat_add_lem[THEN iffD1])
  show "fsz + ((re - rs + 1) - (fsz - rs)) = re + 1" by simp
  have re1: "unat (re + 1) = unat re + 1"
    using lt fl by (simp add: unat_add_lem[THEN iffD1])
  show "fsz \<le> re + 1" using assms re1 by (simp add: word_le_nat_alt)
  show "re + 1 \<le> fl" using lt re1 by (simp add: word_le_nat_alt)
qed

lemma checks_Inr:
  assumes "bitsFragment_checks lib h env r uuid s = Inr (f, s1)"
  shows "isValidUUID uuid"
    and "fst (exists env s (path_Join lib (TempDir (cfg h)) uuid))"
    and "\<not> MkdirAll_fails env"
    and "s1 = s\<lparr>dirs := insert (path_Join lib (TempDir (cfg h)) uuid) (dirs s)\<rparr>"
    and "snd (path_Split (RequestURI r)) \<noteq> []"
    and "\<not> disallowedLoop lib (Disallowed (cfg h)) (snd (path_Split (RequestURI r)))"
    and "allowedLoop lib (Allowed (cfg h)) (snd (path_Split (RequestURI r))) = Some True"
    and "parseRange (Get r ''Content-Range'') = Some (rangeStart f, rangeEnd f, fileLength f)"
    and "\<not> (MaxSize (cfg h) > 0 \<and> fileLength f > MaxSize (cfg h))"
    and "ParseUint (Get r ''Content-Length'') = Some (fragmentSize f)"
    and "\<not> ReadAll_fails env"
    and "data f = Body r"
    and "of_nat (length (data f)) = fragmentSize f"
    and "rangeEnd f - rangeStart f + 1 = fragmentSize f"
  using assms
  by (auto simp: bitsFragment_checks_def Let_def MkdirAll_def
           split: if_splits option.splits)


lemma open_Inr:
  assumes "bitsFragment_open env uuid f s = Inr (fileSize, s2)"
  shows "fileSize = of_nat (length (fileBytes s (src f)))"
    and "s2 = (if files s (src f) = None then s\<lparr>files := (files s)(src f \<mapsto> [])\<rparr> else s)"
  using assms
  by (auto simp: bitsFragment_open_def exists_def fileBytes_def split: if_splits)

lemma open_Inr_fields:
  assumes "bitsFragment_open env uuid f s = Inr (fileSize, s2)"
  shows "fileBytes s2 (src f) = fileBytes s (src f)"
    and "(files s2)(src f \<mapsto> c) = (files s)(src f \<mapsto> c)"
    and "header s2 = header s" "status s2 = status s" "body s2 = body s"
    and "dirs s2 = dirs s" "trace s2 = trace s"
  using open_Inr(2)[OF assms]
  by (auto simp: fileBytes_def)

lemma write_offset_in_bounds:
  assumes "\<not> rangeEnd f < fileSize" and "\<not> rangeStart f > fileSize"
      and "rangeEnd f < fileLength f"
      and "of_nat (length (data f)) = fragmentSize f"
      and "rangeEnd f - rangeStart f + 1 = fragmentSize f"
  shows "rangeStart f \<le> fileSize \<and> unat (fileSize - rangeStart f) < length (data f)"
proof -
  have a: "rangeStart f \<le> fileSize" and b: "fileSize \<le> rangeEnd f"
    using assms(1,2) by simp_all
  note ar = word_range_arith[OF a b assms(3)]
  have "unat (of_nat (length (data f)) :: uint64) \<le> length (data f)"
    by (simp add: unat_of_nat)
  then have "unat (rangeEnd f - rangeStart f + 1) \<le> length (data f)"
    using assms(4,5) by simp
  moreover have "unat fileSize \<le> unat (rangeEnd f)" using b by (simp add: word_le_nat_alt)
  moreover have "unat (rangeStart f) \<le> unat fileSize" using a by (simp add: word_le_nat_alt)
  ultimately show ?thesis using a ar(1,2) by simp
qed

lemma write_length_word:
  assumes "\<not> rangeEnd f < fileSize" and "\<not> rangeStart f > fileSize"
      and "rangeEnd f < fileLength f"
      and "of_nat (length (data f)) = fragmentSize f"
      and "rangeEnd f - rangeStart f + 1 = fragmentSize f"
  shows "(of_nat (length (data f) - unat (fileSize - rangeStart f)) :: uint64)
           = fragmentSize f - (fileSize - rangeStart f)"
proof -
  have "unat (fileSize - rangeStart f) \<le> length (data f)"
    using write_offset_in_bounds[OF assms] by simp
  then have "(of_nat (length (data f) - unat (fileSize - rangeStart f)) :: uint64)
      = of_nat (length (data f)) - of_nat (unat (fileSize - rangeStart f))"
    by (simp add: of_nat_diff)
  then show ?thesis using assms(4) by simp
qed

lemma write_elim:
  obtains
    (rejected) "rangeEnd f < fileSize \<or> rangeStart f > fileSize"
      "bitsFragment_write h env uuid f fileSize s =
         bitsError uuid 416 0 ErrorContextRemoteFile
           (Header_Add ''BITS-Recieved-Content-Range'' (FormatUint fileSize) s)"
  | (panic) "\<not> rangeEnd f < fileSize" "\<not> rangeStart f > fileSize"
      "length (data f) < unat (fileSize - rangeStart f)"
      "bitsFragment_write h env uuid f fileSize s = s\<lparr>trace := trace s @ [RuntimePanic]\<rparr>"
  | (failed) ys where "\<not> rangeEnd f < fileSize" "\<not> rangeStart f > fileSize"
      "bitsFragment_write h env uuid f fileSize s =
         bitsError uuid 500 0 ErrorContextRemoteFile
           (s\<lparr>files := (files s)(src f \<mapsto> fileBytes s (src f) @ ys)\<rparr>)"
      "Write_fails env \<or>
       (of_nat (writtenBytes env (drop (unat (fileSize - rangeStart f)) (data f))) :: uint64)
         \<noteq> fragmentSize f - (fileSize - rangeStart f)"
      "length ys \<le> length (data f) - unat (fileSize - rangeStart f)"
  | (acked) wr where "\<not> rangeEnd f < fileSize" "\<not> rangeStart f > fileSize"
      "\<not> Write_fails env"
      "wr = writtenBytes env (drop (unat (fileSize - rangeStart f)) (data f))"
      "(of_nat wr :: uint64) = fragmentSize f - (fileSize - rangeStart f)"
      "bitsFragment_write h env uuid f fileSize s =
         Write []
           (Header_Add ''BITS-Received-Content-Range'' (FormatUint (fileSize + of_nat wr))
             (Header_Add ''BITS-Session-Id'' uuid
               (Header_Add ''BITS-Packet-Type'' ''Ack''
                 (if rangeEnd f + 1 = fileLength f
                  then doCallback h EventRecieveFile uuid (src f)
                         (s\<lparr>files := (files s)(src f \<mapsto> fileBytes s (src f) @
                                 take wr (drop (unat (fileSize - rangeStart f)) (data f))),
                            trace := trace s @ [FileClose (src f)]\<rparr>)
                  else s\<lparr>files := (files s)(src f \<mapsto> fileBytes s (src f) @
                                 take wr (drop (unat (fileSize - rangeStart f)) (data f)))\<rparr>))))"
proof (cases "rangeEnd f < fileSize \<or> rangeStart f > fileSize")
  case True
  then have "bitsFragment_write h env uuid f fileSize s =
         bitsError uuid 416 0 ErrorContextRemoteFile
           (Header_Add ''BITS-Recieved-Content-Range'' (FormatUint fileSize) s)"
    by (auto simp: bitsFragment_write_def)
  with True show ?thesis by (rule rejected)
next
  case False
  then have st: "\<not> rangeEnd f < fileSize" and gp: "\<not> rangeStart f > fileSize" by simp_all
  show ?thesis
  proof (cases "length (data f) < unat (fileSize - rangeStart f)")
    case True
    then have "bitsFragment_write h env uuid f fileSize s = s\<lparr>trace := trace s @ [RuntimePanic]\<rparr>"
      using st gp by (simp add: bitsFragment_write_def Let_def)
    with st gp True show ?thesis by (rule panic)
  next
    case nb: False
    define chunk where "chunk = drop (unat (fileSize - rangeStart f)) (data f)"
    define wr where "wr = writtenBytes env chunk"
    show ?thesis
    proof (cases "Write_fails env \<or>
        (of_nat wr :: uint64) \<noteq> fragmentSize f - (fileSize - rangeStart f)")
      case True
      then have "bitsFragment_write h env uuid f fileSize s =
           bitsError uuid 500 0 ErrorContextRemoteFile
             (s\<lparr>files := (files s)(src f \<mapsto> fileBytes s (src f) @ take wr chunk)\<rparr>)"
        using st gp nb
        by (auto simp: bitsFragment_write_def Let_def wr_def chunk_def writtenBytes_def)
      with st gp show ?thesis using True
        by (intro failed[of "take wr chunk"]) (simp_all add: wr_def chunk_def)
    next
      case False
      then have wf: "\<not> Write_fails env"
        and eq: "(of_nat wr :: uint64) = fragmentSize f - (fileSize - rangeStart f)" by simp_all
      have "bitsFragment_write h env uuid f fileSize s =
           Write []
             (Header_Add ''BITS-Received-Content-Range'' (FormatUint (fileSize + of_nat wr))
               (Header_Add ''BITS-Session-Id'' uuid
                 (Header_Add ''BITS-Packet-Type'' ''Ack''
                   (if rangeEnd f + 1 = fileLength f
                    then doCallback h EventRecieveFile uuid (src f)
                           (s\<lparr>files := (files s)(src f \<mapsto> fileBytes s (src f) @
                                   take wr (drop (unat (fileSize - rangeStart f)) (data f))),
                              trace := trace s @ [FileClose (src f)]\<rparr>)
                    else s\<lparr>files := (files s)(src f \<mapsto> fileBytes s (src f) @
                                   take wr (drop (unat (fileSize - rangeStart f)) (data f)))\<rparr>))))"
        using st gp nb wf eq
        by (simp add: bitsFragment_write_def Let_def wr_def chunk_def writtenBytes_def)
      with st gp wf show ?thesis using eq wr_def chunk_def by (intro acked[of wr]) simp_all
    qed
  qed
qed

lemma checks_Inr_src:
  assumes "bitsFragment_checks lib h env r uuid s = Inr (f, s1)"
  shows "src f = fragmentPath lib h r uuid"
  using assms
  by (auto simp: bitsFragment_checks_def fragmentPath_def Let_def MkdirAll_def
           split: if_splits option.splits)

lemma checks_InrI:
  assumes "isValidUUID uuid"
      and "fst (exists env s (path_Join lib (TempDir (cfg h)) uuid))"
      and "\<not> MkdirAll_fails env"
      and "snd (path_Split (RequestURI r)) \<noteq> []"
      and "\<not> disallowedLoop lib (Disallowed (cfg h)) (snd (path_Split (RequestURI r)))"
      and "allowedLoop lib (Allowed (cfg h)) (snd (path_Split (RequestURI r))) = Some True"
      and "parseRange (Get r ''Content-Range'') = Some (a, b, c)"
      and "\<not> (MaxSize (cfg h) > 0 \<and> c > MaxSize (cfg h))"
      and "ParseUint (Get r ''Content-Length'') = Some n"
      and "\<not> ReadAll_fails env"
      and "of_nat (length (Body r)) = n"
      and "b - a + 1 = n"
  shows "bitsFragment_checks lib h env r uuid s =
           Inr (\<lparr>src = fragmentPath lib h r uuid, rangeStart = a, rangeEnd = b,
                 fileLength = c, fragmentSize = n, data = Body r\<rparr>,
                s\<lparr>dirs := insert (path_Join lib (TempDir (cfg h)) uuid) (dirs s)\<rparr>)"
  using assms isValidUUID_nonempty[OF assms(1)]
  by (simp add: bitsFragment_checks_def fragmentPath_def Let_def MkdirAll_def)

lemma open_InrI:
  assumes "\<not> exists_fails env (src f)" and "\<not> OpenFile_fails env"
      and "\<not> Stat_fails env" and "src f \<notin> dirs s"
  shows "bitsFragment_open env uuid f s =
           Inr (of_nat (length (fileBytes s (src f))),
                if files s (src f) = None then s\<lparr>files := (files s)(src f \<mapsto> [])\<rparr> else s)"
  using assms
  by (auto simp: bitsFragment_open_def exists_def fileBytes_def)

lemma write_trace_no_panic:
  assumes "\<not> length (data f) < unat (fileSize - rangeStart f)"
      and "RuntimePanic \<in> set (trace (bitsFragment_write h env uuid f fileSize s))"
  shows "RuntimePanic \<in> set (trace s)"
  using assms
  by (cases rule: write_elim[where f=f and fileSize=fileSize and h=h and env=env and uuid=uuid and s=s]) (auto split: if_splits)

subsection \<open>The example requests\<close>

lemma Get_exFragment:
  "Get (exFragment uri cr cl bytes) ''Content-Range'' = cr"
  "Get (exFragment uri cr cl bytes) ''Content-Length'' = cl"
  "Get (exFragment uri cr cl bytes) ''BITS-Session-Id'' = exId"
  "Get (exFragment uri cr cl bytes) ''BITS-Packet-Type'' = ''Fragment''"
  by (simp_all add: Get_def exFragment_def)

lemma ex_join:
  "path_Join exLib (TempDir (cfg exHandler)) exId = ''/tmp/bits/{0a1b2c3d-0000-4000-8000-00000000002f}''"
  by (simp add: exLib_def exHandler_def exConfig_def exId_def)

lemma ex_filename:
  "snd (path_Split (RequestURI (exFragment ''/up/hello.txt'' cr cl bytes))) = ''hello.txt''"
  by (simp add: path_Split_def exFragment_def)

lemma ex_filter:
  "\<not> disallowedLoop exLib (Disallowed (cfg exHandler)) ''hello.txt''"
  "allowedLoop exLib (Allowed (cfg exHandler)) ''hello.txt'' = Some True"
  by (simp_all add: exLib_def exHandler_def exConfig_def exMatch_def)

lemma ex_path:
  "fragmentPath exLib exHandler (exFragment ''/up/hello.txt'' cr cl bytes) exId = exHelloPath"
  unfolding fragmentPath_def ex_join ex_filename
  by (simp add: exLib_def exHelloPath_def)

lemma ex_checks:
  assumes "''/tmp/bits/{0a1b2c3d-0000-4000-8000-00000000002f}'' \<in> dirs s"
      and "parseRange cr = Some (a, b, c)" and "c \<le> 100"
      and "ParseUint cl = Some n" and "of_nat (length bytes) = n" and "b - a + 1 = n"
  shows "bitsFragment_checks exLib exHandler exEnv (exFragment ''/up/hello.txt'' cr cl bytes) exId s
         = Inr (\<lparr>src = exHelloPath, rangeStart = a, rangeEnd = b, fileLength = c,
                  fragmentSize = n, data = bytes\<rparr>,
                s\<lparr>dirs := insert ''/tmp/bits/{0a1b2c3d-0000-4000-8000-00000000002f}'' (dirs s)\<rparr>)"
proof -
  let ?r = "exFragment ''/up/hello.txt'' cr cl bytes"
  have 1: "fst (exists exEnv s (path_Join exLib (TempDir (cfg exHandler)) exId))"
    unfolding ex_join using assms(1) by (simp add: exists_def)
  have 2: "\<not> MkdirAll_fails exEnv" "\<not> ReadAll_fails exEnv" by (simp_all add: exEnv_def)
  have 3: "snd (path_Split (RequestURI ?r)) \<noteq> []" unfolding ex_filename by simp
  have 4: "\<not> (MaxSize (cfg exHandler) > 0 \<and> c > MaxSize (cfg exHandler))"
    using assms(3) by (simp add: exHandler_def exConfig_def)
  have 5: "of_nat (length (Body ?r)) = n" using assms(5) by (simp add: exFragment_def)
  have 6: "Body ?r = bytes" by (simp add: exFragment_def)
  show ?thesis
    using checks_InrI[where lib=exLib and h=exHandler and env=exEnv and r="?r" and uuid=exId and s=s
        and a=a and b=b and c=c and n=n, OF isValidUUID_exId 1 2(1) 3]
      ex_filter assms(2,4,6) 4 2(2) 5
    by (simp add: ex_filename Get_exFragment ex_path ex_join 6)
qed

lemma ex_parse_0_4_10: "parseRange ''bytes 0-4/10'' = Some (0, 4, 10)"
  by (simp add: parseRange_def ParseUint_def isDigit_def decimalVal_def digitVal_def)

lemma ex_parse_5: "ParseUint ''5'' = Some 5"
  by (simp add: ParseUint_def isDigit_def decimalVal_def digitVal_def)

lemma ex_checks_hello:
  assumes "''/tmp/bits/{0a1b2c3d-0000-4000-8000-00000000002f}'' \<in> dirs s"
  shows "bitsFragment_checks exLib exHandler exEnv
           (exFragment ''/up/hello.txt'' ''bytes 0-4/10'' ''5'' ''Hello'') exId s
         = Inr (\<lparr>src = exHelloPath, rangeStart = 0, rangeEnd = 4, fileLength = 10,
                  fragmentSize = 5, data = ''Hello''\<rparr>,
                s\<lparr>dirs := insert ''/tmp/bits/{0a1b2c3d-0000-4000-8000-00000000002f}'' (dirs s)\<rparr>)"
  by (rule ex_checks[OF assms ex_parse_0_4_10 _ ex_parse_5]) simp_all

lemma exHelloPath_not_dir: "exHelloPath \<noteq> exDir"
  by (simp add: exHelloPath_def)

lemma exPartial_fields:
  "exDir \<in> dirs exPartial" "exHelloPath \<notin> dirs exPartial"
  "files exPartial exHelloPath = Some ''Hel''" "fileBytes exPartial exHelloPath = ''Hel''"
  "status exPartial = None" "header exPartial = []" "trace exPartial = []"
  by (simp_all add: exPartial_def exSession_def exEmpty_def exHelloPath_def fileBytes_def)

lemma ex_open:
  assumes "p \<notin> dirs s" and "p \<noteq> exDir"
  shows "bitsFragment_open exEnv exId \<lparr>src = p, rangeStart = a, rangeEnd = b, fileLength = c,
                  fragmentSize = n, data = bytes\<rparr> (s\<lparr>dirs := insert exDir (dirs s)\<rparr>)
         = Inr (of_nat (length (fileBytes s p)),
                if files s p = None then s\<lparr>dirs := insert exDir (dirs s), files := (files s)(p \<mapsto> [])\<rparr>
                else s\<lparr>dirs := insert exDir (dirs s)\<rparr>)"
  using assms by (auto simp: bitsFragment_open_def exists_def fileBytes_def exEnv_def)

subsection \<open>Accepted fragments\<close>

text \<open>
  Claim C10.  In a fragment request that has passed the checks of the first part (so the
  body has \<open>fragmentSize\<close> bytes and the range spans as many) and the two sanity
  checks against the size of the file, \<open>rangeStart \<le> fileSize\<close>, so the unsigned
  subtraction \<open>fileSize - rangeStart\<close> does not wrap, and the offset is smaller than the
  length of the data, so \<^verbatim>\<open>data[dataOffset:]\<close> is in bounds and not empty; the write
  part adds no run-time panic to the trace.
\<close>

theorem C10_slice_in_bounds:
  assumes "bitsFragment_checks lib h env r uuid s = Inr (f, s1)"
      and "\<not> rangeEnd f < fileSize" and "\<not> rangeStart f > fileSize"
  shows "rangeStart f \<le> fileSize
       \<and> unat (fileSize - rangeStart f) < length (data f)
       \<and> drop (unat (fileSize - rangeStart f)) (data f) \<noteq> []
       \<and> (RuntimePanic \<in> set (trace (bitsFragment_write h env uuid f fileSize s2))
            \<longrightarrow> RuntimePanic \<in> set (trace s2))"
proof -
  note c = checks_Inr[OF assms(1)]
  have lt: "rangeEnd f < fileLength f" using parseRange_bounds[OF c(8)] by simp
  have b: "rangeStart f \<le> fileSize \<and> unat (fileSize - rangeStart f) < length (data f)"
    using write_offset_in_bounds[OF assms(2,3) lt c(13,14)] .
  then have nb: "\<not> length (data f) < unat (fileSize - rangeStart f)" by simp
  show ?thesis using b write_trace_no_panic[OF nb] by auto
qed

theorem C10_slice_in_bounds_witness:
  "rangeStart \<lparr>src = exHelloPath, rangeStart = 0, rangeEnd = 4, fileLength = 10,
                 fragmentSize = 5, data = ''Hello''\<rparr> \<le> (3 :: uint64)
   \<and> unat (3 - 0 :: uint64) < length ''Hello''
   \<and> drop (unat (3 - 0 :: uint64)) ''Hello'' = ''lo''"
proof -
  let ?f = "\<lparr>src = exHelloPath, rangeStart = 0, rangeEnd = 4, fileLength = 10,
                  fragmentSize = 5, data = ''Hello''\<rparr>"
  note c = ex_checks_hello[OF exPartial_fields(1)]
  have n: "\<not> rangeEnd ?f < 3" "\<not> rangeStart ?f > 3" by simp_all
  show ?thesis using C10_slice_in_bounds[OF c n] by simp
qed

text \<open>
  Claim C1.  A fragment request that passes all checks, whose file can be opened, that is
  neither stale nor leaves a gap, and whose write succeeds, is answered with status 200;
  the file afterwards holds its old bytes followed by exactly the bytes of the body from
  offset \<open>fileSize - rangeStart\<close> on, no other file changes, and the header
  \<^verbatim>\<open>BITS-Received-Content-Range\<close> of the acknowledgement is the size of the file on
  disk after the write, which is \<open>fileSize\<close> plus the number of bytes written.
\<close>

theorem C1_fragment_append:
  assumes checks: "bitsFragment_checks lib h env r uuid s = Inr (f, s1)"
      and opened: "bitsFragment_open env uuid f s1 = Inr (fileSize, s2)"
      and nostale: "\<not> rangeEnd f < fileSize" and nogap: "\<not> rangeStart f > fileSize"
      and wrote: "Write_short env = None" "\<not> Write_fails env"
      and fresh: "status s = None"
  shows "status (bitsFragment lib h env r uuid s) = Some 200
       \<and> fileSize = of_nat (length (fileBytes s (src f)))
       \<and> data f = Body r
       \<and> files (bitsFragment lib h env r uuid s) =
            (files s)(src f \<mapsto> fileBytes s (src f) @ drop (unat (fileSize - rangeStart f)) (Body r))
       \<and> header (bitsFragment lib h env r uuid s) =
            header s @ [(''BITS-Packet-Type'', ''Ack''), (''BITS-Session-Id'', uuid),
              (''BITS-Received-Content-Range'',
               FormatUint (of_nat (length (fileBytes (bitsFragment lib h env r uuid s) (src f)))))]
       \<and> (of_nat (length (fileBytes (bitsFragment lib h env r uuid s) (src f))) :: uint64) =
            fileSize + of_nat (length (drop (unat (fileSize - rangeStart f)) (Body r)))"
proof -
  note c = checks_Inr[OF checks]
  have s1: "files s1 = files s" "header s1 = header s" "status s1 = status s"
    using c(4) by simp_all
  have fb1: "fileBytes s1 (src f) = fileBytes s (src f)" using s1 by (simp add: fileBytes_def)
  note o = open_Inr[OF opened] open_Inr_fields[OF opened]
  have lt: "rangeEnd f < fileLength f" using parseRange_bounds[OF c(8)] by simp
  have nb: "\<not> length (data f) < unat (fileSize - rangeStart f)"
    using write_offset_in_bounds[OF nostale nogap lt c(13,14)] by simp
  define chunk where "chunk = drop (unat (fileSize - rangeStart f)) (data f)"
  have run: "bitsFragment lib h env r uuid s = bitsFragment_write h env uuid f fileSize s2"
    by (simp add: bitsFragment_def checks opened)
  have wb: "writtenBytes env chunk = length chunk" using wrote by (simp add: writtenBytes_def)
  have weq: "(of_nat (writtenBytes env chunk) :: uint64) = fragmentSize f - (fileSize - rangeStart f)"
    using write_length_word[OF nostale nogap lt c(13,14)] wb by (simp add: chunk_def)
  show ?thesis
  proof (cases rule: write_elim[where f=f and fileSize=fileSize and h=h and env=env and uuid=uuid and s=s2])
    case panic
    then show ?thesis using nb by simp
  next
    case rejected
    then show ?thesis using nostale nogap by simp
  next
    case (failed ys)
    then show ?thesis using wrote(2) weq by (simp add: chunk_def)
  next
    case (acked wr)
    have wr: "wr = length chunk" using acked(4) wb by (simp add: chunk_def)
    have st: "status s2 = None" using o fresh s1 by simp
    have fl: "files (bitsFragment lib h env r uuid s) =
        (files s)(src f \<mapsto> fileBytes s (src f) @ chunk)"
      using run acked(6) wr o fb1 s1 by (simp add: chunk_def)
    then have fb: "fileBytes (bitsFragment lib h env r uuid s) (src f) = fileBytes s (src f) @ chunk"
      by (simp add: fileBytes_def)
    have sz: "fileSize = of_nat (length (fileBytes s (src f)))" using o(1) fb1 by simp
    have hd: "header (bitsFragment lib h env r uuid s) =
        header s @ [(''BITS-Packet-Type'', ''Ack''), (''BITS-Session-Id'', uuid),
              (''BITS-Received-Content-Range'', FormatUint (fileSize + of_nat (length chunk)))]"
      using run acked(6) wr o s1 by simp
    have stt: "status (bitsFragment lib h env r uuid s) = Some 200"
      using run acked(6) st by simp
    show ?thesis using fl fb sz hd stt c(12) by (simp add: chunk_def)
  qed
qed

theorem C1_fragment_append_witness:
  "status (bitsFragment exLib exHandler exEnv
             (exFragment ''/up/hello.txt'' ''bytes 0-4/10'' ''5'' ''Hello'') exId exPartial) = Some 200
   \<and> files (bitsFragment exLib exHandler exEnv
             (exFragment ''/up/hello.txt'' ''bytes 0-4/10'' ''5'' ''Hello'') exId exPartial) exHelloPath
       = Some ''Hello''
   \<and> header (bitsFragment exLib exHandler exEnv
             (exFragment ''/up/hello.txt'' ''bytes 0-4/10'' ''5'' ''Hello'') exId exPartial)
       = [(''BITS-Packet-Type'', ''Ack''), (''BITS-Session-Id'', exId),
          (''BITS-Received-Content-Range'', ''5'')]"
proof -
  let ?r = "exFragment ''/up/hello.txt'' ''bytes 0-4/10'' ''5'' ''Hello''"
  let ?f = "\<lparr>src = exHelloPath, rangeStart = 0, rangeEnd = 4, fileLength = 10,
                  fragmentSize = 5, data = ''Hello''\<rparr>"
  note c = ex_checks_hello[OF exPartial_fields(1)]
  have o: "bitsFragment_open exEnv exId ?f (exPartial\<lparr>dirs := insert exDir (dirs exPartial)\<rparr>)
      = Inr (3, exPartial\<lparr>dirs := insert exDir (dirs exPartial)\<rparr>)"
    using ex_open[OF exPartial_fields(2) exHelloPath_not_dir, of 0 4 10 5 "''Hello''"] exPartial_fields by simp
  have w: "Write_short exEnv = None" "\<not> Write_fails exEnv" by (simp_all add: exEnv_def)
  have n: "\<not> rangeEnd ?f < 3" "\<not> rangeStart ?f > 3" by simp_all
  note th = C1_fragment_append[OF c o n w exPartial_fields(5)]
  have five: "FormatUint 5 = ''5''" by (simp add: FormatUint_def digits.simps)
  show ?thesis using th exPartial_fields five by (simp add: fileBytes_def)
qed

subsection \<open>The outcomes of a fragment request\<close>

lemma checks_Inl:
  assumes "bitsFragment_checks lib h env r uuid s = Inl s'"
  obtains u c s0 where "s' = bitsError u c 0 ErrorContextRemoteFile s0"
    and "c = 400 \<or> c = 413 \<or> c = 500"
    and "s0 = s \<or> s0 = s\<lparr>dirs := insert (path_Join lib (TempDir (cfg h)) uuid) (dirs s)\<rparr>"
  using assms
  by (auto simp: bitsFragment_checks_def Let_def MkdirAll_def
           split: if_splits option.splits)

lemma open_Inl:
  assumes "bitsFragment_open env uuid f s = Inl s'"
  obtains c where "s' = bitsError uuid c 0 ErrorContextRemoteFile s"
    and "c = 400 \<or> c = 500"
  using assms
  by (auto simp: bitsFragment_open_def exists_def split: if_splits)

lemma bitsFragment_cases:
  obtains
    (early) u c s0 where "bitsFragment lib h env r uuid s = bitsError u c 0 ErrorContextRemoteFile s0"
      "c = 400 \<or> c = 413 \<or> c = 500"
      "header s0 = header s" "status s0 = status s" "body s0 = body s"
      "files s0 = files s" "trace s0 = trace s"
  | (reached) f s1 fileSize s2 where
      "bitsFragment_checks lib h env r uuid s = Inr (f, s1)"
      "bitsFragment_open env uuid f s1 = Inr (fileSize, s2)"
      "bitsFragment lib h env r uuid s = bitsFragment_write h env uuid f fileSize s2"
proof (cases "bitsFragment_checks lib h env r uuid s")
  case (Inl s')
  then have eq: "bitsFragment lib h env r uuid s = s'" by (simp add: bitsFragment_def)
  from Inl show ?thesis
  proof (rule checks_Inl)
    fix u c s0
    assume "s' = bitsError u c 0 ErrorContextRemoteFile s0" "c = 400 \<or> c = 413 \<or> c = 500"
      "s0 = s \<or> s0 = s\<lparr>dirs := insert (path_Join lib (TempDir (cfg h)) uuid) (dirs s)\<rparr>"
    then show ?thesis using eq by (intro early[of u c s0]) auto
  qed
next
  case (Inr p)
  obtain f s1 where p: "p = (f, s1)" by (cases p)
  note c = Inr[unfolded p]
  note cf = checks_Inr[OF c]
  show ?thesis
  proof (cases "bitsFragment_open env uuid f s1")
    case (Inl s')
    then have eq: "bitsFragment lib h env r uuid s = s'" using c by (simp add: bitsFragment_def)
    from Inl show ?thesis
    proof (rule open_Inl)
      fix c
      assume "s' = bitsError uuid c 0 ErrorContextRemoteFile s1" "c = 400 \<or> c = 500"
      then show ?thesis using eq cf(4) by (intro early[of uuid c s1]) auto
    qed
  next
    case (Inr q)
    obtain fileSize s2 where q: "q = (fileSize, s2)" by (cases q)
    show ?thesis using c Inr[unfolded q]
      by (intro reached[of f s1 fileSize s2]) (simp_all add: bitsFragment_def)
  qed
qed

lemma writtenBytes_le: "writtenBytes env chunk \<le> length chunk"
  by (simp add: writtenBytes_def split: option.split)

lemma reached_fields:
  assumes "bitsFragment_checks lib h env r uuid s = Inr (f, s1)"
      and "bitsFragment_open env uuid f s1 = Inr (fileSize, s2)"
  shows "header s2 = header s" "status s2 = status s" "body s2 = body s" "trace s2 = trace s"
    and "fileBytes s2 q = fileBytes s q"
    and "q \<noteq> src f \<Longrightarrow> files s2 q = files s q"
    and "fileSize = of_nat (length (fileBytes s (src f)))"
    and "(files s2)(src f \<mapsto> bs) = (files s)(src f \<mapsto> bs)"
  using checks_Inr(4)[OF assms(1)] open_Inr[OF assms(2)]
  by (auto simp: fileBytes_def)

lemma acked_value:
  assumes "\<not> rangeEnd f < fileSize" and "\<not> rangeStart f > fileSize"
      and "rangeEnd f < fileLength f"
      and "rangeEnd f - rangeStart f + 1 = fragmentSize f"
      and "(w :: uint64) = fragmentSize f - (fileSize - rangeStart f)"
  shows "fileSize + w = rangeEnd f + 1" "fileSize \<le> rangeEnd f + 1"
    "rangeEnd f + 1 \<le> fileLength f"
proof -
  have a: "rangeStart f \<le> fileSize" and b: "fileSize \<le> rangeEnd f"
    using assms(1,2) by simp_all
  note ar = word_range_arith[OF a b assms(3)]
  show "fileSize + w = rangeEnd f + 1" using ar(3) assms(4,5) by simp
  show "fileSize \<le> rangeEnd f + 1" "rangeEnd f + 1 \<le> fileLength f" using ar by simp_all
qed

lemma exDone_fields:
  "exDir \<in> dirs exDone" "exHelloPath \<notin> dirs exDone"
  "files exDone exHelloPath = Some ''HelloWorld''" "fileBytes exDone exHelloPath = ''HelloWorld''"
  "status exDone = None" "header exDone = []" "trace exDone = []"
  by (simp_all add: exDone_def exSession_def exEmpty_def exHelloPath_def fileBytes_def)

lemma stale_or_gap_response:
  assumes checks: "bitsFragment_checks lib h env r uuid s = Inr (f, s1)"
      and opened: "bitsFragment_open env uuid f s1 = Inr (fileSize, s2)"
      and out: "rangeEnd f < fileSize \<or> rangeStart f > fileSize"
      and fresh: "status s = None"
  shows "status (bitsFragment lib h env r uuid s) = Some 416
       \<and> header (bitsFragment lib h env r uuid s) =
           header s @ [(''BITS-Recieved-Content-Range'', FormatUint fileSize),
                       (''BITS-Packet-Type'', ''Ack''), (''BITS-Session-Id'', uuid),
                       (''BITS-Error-Code'', hex8 0),
                       (''BITS-Error-Context'', hex8 ErrorContextRemoteFile)]
       \<and> fileSize = of_nat (length (fileBytes s (src f)))
       \<and> fileBytes (bitsFragment lib h env r uuid s) q = fileBytes s q
       \<and> body (bitsFragment lib h env r uuid s) = body s
       \<and> trace (bitsFragment lib h env r uuid s) = trace s @ [WroteHeader 416]"
proof -
  note rf = reached_fields[OF checks opened]
  have run: "bitsFragment lib h env r uuid s = bitsFragment_write h env uuid f fileSize s2"
    by (simp add: bitsFragment_def checks opened)
  have "bitsFragment_write h env uuid f fileSize s2 =
      bitsError uuid 416 0 ErrorContextRemoteFile
        (Header_Add ''BITS-Recieved-Content-Range'' (FormatUint fileSize) s2)"
    using out by (auto simp: bitsFragment_write_def)
  then show ?thesis using run rf fresh by (simp add: fileBytes_def)
qed

lemma accepted_status:
  assumes checks: "bitsFragment_checks lib h env r uuid s = Inr (f, s1)"
      and opened: "bitsFragment_open env uuid f s1 = Inr (fileSize, s2)"
      and nostale: "\<not> rangeEnd f < fileSize" and nogap: "\<not> rangeStart f > fileSize"
      and wrote: "Write_short env = None" "\<not> Write_fails env"
      and fresh: "status s = None"
  shows "status (bitsFragment lib h env r uuid s) = Some 200"
proof -
  note c = checks_Inr[OF checks]
  note rf = reached_fields[OF checks opened]
  have lt: "rangeEnd f < fileLength f" using parseRange_bounds[OF c(8)] by simp
  have nb: "\<not> length (data f) < unat (fileSize - rangeStart f)"
    using write_offset_in_bounds[OF nostale nogap lt c(13,14)] by simp
  have run: "bitsFragment lib h env r uuid s = bitsFragment_write h env uuid f fileSize s2"
    by (simp add: bitsFragment_def checks opened)
  have weq: "(of_nat (writtenBytes env (drop (unat (fileSize - rangeStart f)) (data f))) :: uint64)
      = fragmentSize f - (fileSize - rangeStart f)"
    using write_length_word[OF nostale nogap lt c(13,14)] wrote(1) by (simp add: writtenBytes_def)
  show ?thesis
  proof (cases rule: write_elim[where f=f and fileSize=fileSize and h=h and env=env and uuid=uuid and s=s2])
    case panic
    then show ?thesis using nb by simp
  next
    case rejected
    then show ?thesis using nostale nogap by simp
  next
    case (failed ys)
    then show ?thesis using wrote(2) weq by simp
  next
    case (acked wr)
    then show ?thesis using run rf fresh by simp
  qed
qed

lemma ex_hello_partial_status:
  "status (bitsFragment exLib exHandler exEnv
             (exFragment ''/up/hello.txt'' ''bytes 0-4/10'' ''5'' ''Hello'') exId exPartial) = Some 200"
proof -
  let ?f = "\<lparr>src = exHelloPath, rangeStart = 0, rangeEnd = 4, fileLength = 10,
                  fragmentSize = 5, data = ''Hello''\<rparr>"
  note c = ex_checks_hello[OF exPartial_fields(1)]
  have o: "bitsFragment_open exEnv exId ?f (exPartial\<lparr>dirs := insert exDir (dirs exPartial)\<rparr>)
      = Inr (3, exPartial\<lparr>dirs := insert exDir (dirs exPartial)\<rparr>)"
    using ex_open[OF exPartial_fields(2) exHelloPath_not_dir, of 0 4 10 5 "''Hello''"] exPartial_fields by simp
  have w: "Write_short exEnv = None" "\<not> Write_fails exEnv" by (simp_all add: exEnv_def)
  have n: "\<not> rangeEnd ?f < 3" "\<not> rangeStart ?f > 3" by simp_all
  show ?thesis by (rule accepted_status[OF c o n w exPartial_fields(5)])
qed

lemma checks_fail_uuid:
  assumes "\<not> isValidUUID uuid"
  shows "bitsFragment_checks lib h env r uuid s = Inl (bitsError [] 400 0 ErrorContextRemoteFile s)"
  using assms by (simp add: bitsFragment_checks_def)

lemma checks_fail_session:
  assumes "isValidUUID uuid"
      and "\<not> fst (exists env s (path_Join lib (TempDir (cfg h)) uuid))"
  shows "bitsFragment_checks lib h env r uuid s = Inl (bitsError uuid 400 0 ErrorContextRemoteFile s)"
  using assms isValidUUID_nonempty[OF assms(1)] by (simp add: bitsFragment_checks_def)

lemma checks_fail_mkdir:
  assumes "isValidUUID uuid"
      and "fst (exists env s (path_Join lib (TempDir (cfg h)) uuid))"
      and "MkdirAll_fails env"
  shows "bitsFragment_checks lib h env r uuid s = Inl (bitsError [] 500 0 ErrorContextRemoteFile s)"
  using assms isValidUUID_nonempty[OF assms(1)]
  by (simp add: bitsFragment_checks_def MkdirAll_def)

lemma checks_fail_filename:
  assumes "isValidUUID uuid"
      and "fst (exists env s (path_Join lib (TempDir (cfg h)) uuid))"
      and "\<not> MkdirAll_fails env"
      and "snd (path_Split (RequestURI r)) = []"
  shows "bitsFragment_checks lib h env r uuid s =
           Inl (bitsError uuid 400 0 ErrorContextRemoteFile
                  (s\<lparr>dirs := insert (path_Join lib (TempDir (cfg h)) uuid) (dirs s)\<rparr>))"
  using assms isValidUUID_nonempty[OF assms(1)]
  by (simp add: bitsFragment_checks_def MkdirAll_def)

lemma checks_fail_filter:
  assumes "isValidUUID uuid"
      and "fst (exists env s (path_Join lib (TempDir (cfg h)) uuid))"
      and "\<not> MkdirAll_fails env"
      and "snd (path_Split (RequestURI r)) \<noteq> []"
      and "disallowedLoop lib (Disallowed (cfg h)) (snd (path_Split (RequestURI r)))
           \<or> allowedLoop lib (Allowed (cfg h)) (snd (path_Split (RequestURI r))) \<noteq> Some True"
  shows "bitsFragment_checks lib h env r uuid s =
           Inl (bitsError uuid 400 0 ErrorContextRemoteFile
                  (s\<lparr>dirs := insert (path_Join lib (TempDir (cfg h)) uuid) (dirs s)\<rparr>))"
proof (cases "disallowedLoop lib (Disallowed (cfg h)) (snd (path_Split (RequestURI r)))")
  case True
  then show ?thesis using assms(1-4) isValidUUID_nonempty[OF assms(1)]
    by (simp add: bitsFragment_checks_def MkdirAll_def)
next
  case False
  then have "allowedLoop lib (Allowed (cfg h)) (snd (path_Split (RequestURI r))) \<noteq> Some True"
    using assms(5) by simp
  then have "allowedLoop lib (Allowed (cfg h)) (snd (path_Split (RequestURI r))) = None
      \<or> allowedLoop lib (Allowed (cfg h)) (snd (path_Split (RequestURI r))) = Some False"
    by (cases "allowedLoop lib (Allowed (cfg h)) (snd (path_Split (RequestURI r)))") auto
  then show ?thesis using False assms(1-4) isValidUUID_nonempty[OF assms(1)]
    by (auto simp: bitsFragment_checks_def MkdirAll_def)
qed

lemma checks_after_filter:
  assumes "isValidUUID uuid"
      and "fst (exists env s (path_Join lib (TempDir (cfg h)) uuid))"
      and "\<not> MkdirAll_fails env"
      and "snd (path_Split (RequestURI r)) \<noteq> []"
      and "\<not> disallowedLoop lib (Disallowed (cfg h)) (snd (path_Split (RequestURI r)))"
      and "allowedLoop lib (Allowed (cfg h)) (snd (path_Split (RequestURI r))) = Some True"
  shows "bitsFragment_checks lib h env r uuid s =
     (let s1 = s\<lparr>dirs := insert (path_Join lib (TempDir (cfg h)) uuid) (dirs s)\<rparr>
      in case parseRange (Get r ''Content-Range'') of
           None \<Rightarrow> Inl (bitsError uuid 400 0 ErrorContextRemoteFile s1)
         | Some (a, b, c) \<Rightarrow>
             if MaxSize (cfg h) > 0 \<and> c > MaxSize (cfg h)
             then Inl (bitsError uuid 413 0 ErrorContextRemoteFile s1)
             else (case ParseUint (Get r ''Content-Length'') of
                     None \<Rightarrow> Inl (bitsError uuid 400 0 ErrorContextRemoteFile s1)
                   | Some n \<Rightarrow>
                       if ReadAll_fails env \<or> of_nat (length (Body r)) \<noteq> n \<or> b - a + 1 \<noteq> n
                       then Inl (bitsError uuid 400 0 ErrorContextRemoteFile s1)
                       else Inr (\<lparr>src = fragmentPath lib h r uuid, rangeStart = a, rangeEnd = b,
                                   fileLength = c, fragmentSize = n, data = Body r\<rparr>, s1)))"
  using assms isValidUUID_nonempty[OF assms(1)]
  by (simp add: bitsFragment_checks_def MkdirAll_def fragmentPath_def Let_def
           split: option.split prod.split)

lemma exSession_fields:
  "exDir \<in> dirs exSession" "exHelloPath \<notin> dirs exSession"
  "files exSession exHelloPath = None" "fileBytes exSession exHelloPath = []"
  "status exSession = None" "header exSession = []" "trace exSession = []"
  by (simp_all add: exSession_def exEmpty_def exHelloPath_def fileBytes_def)

lemma ex_session_exists:
  assumes "exDir \<in> dirs s"
  shows "fst (exists env s (path_Join exLib (TempDir (cfg exHandler)) exId))"
  unfolding ex_join using assms by (simp add: exists_def)

lemma ex_maxsize: "MaxSize (cfg exHandler) = 100"
  by (simp add: exHandler_def exConfig_def)

lemma exEnv_fields:
  "\<not> MkdirAll_fails exEnv" "\<not> ReadAll_fails exEnv" "\<not> OpenFile_fails exEnv"
  "\<not> Stat_fails exEnv" "\<not> Write_fails exEnv" "Write_short exEnv = None"
  "\<not> DumpRequest_fails exEnv" "newUUID exEnv = Some exId" "\<not> exists_fails exEnv p"
  by (simp_all add: exEnv_def)

lemma ex_parse_0_49_200: "parseRange ''bytes 0-49/200'' = Some (0, 49, 200)"
  by (simp add: parseRange_def ParseUint_def isDigit_def decimalVal_def digitVal_def)

lemma ex_parse_bogus: "parseRange ''bogus'' = None"
  by (simp add: parseRange_def)

lemma ex_firstFailure_too_large:
  "firstFailure exLib exHandler exEnv
     (exFragment ''/up/hello.txt'' ''bytes 0-49/200'' ''50'' ''x'') exId exSession
   = Some WithinMaxSize"
  by (simp add: firstFailure_def isValidUUID_exId ex_session_exists[OF exSession_fields(1)]
        ex_filename ex_filter Get_exFragment ex_parse_0_49_200 ex_maxsize)

lemma ex_firstFailure_bogus:
  "firstFailure exLib exHandler exEnv
     (exFragment ''/up/hello.txt'' ''bogus'' ''5'' ''Hello'') exId exSession
   = Some ContentRangeParses"
  by (simp add: firstFailure_def isValidUUID_exId ex_session_exists[OF exSession_fields(1)]
        ex_filename ex_filter Get_exFragment ex_parse_bogus)

subsection \<open>Stale and gapped fragments\<close>

text \<open>
  Claim C2, evaluated on the replay of an accepted fragment: the ten bytes of
  \<open>hello.txt\<close> are on disk and the fragment \<open>bytes 0-4/10\<close> arrives again.  The answer
  has status 416 and leaves the file as it was, but the size of the file is sent under the
  header name \<^verbatim>\<open>BITS-Recieved-Content-Range\<close>; the response has no header named
  \<^verbatim>\<open>BITS-Received-Content-Range\<close>.  The lemma \<open>stale_or_gap_response\<close> above gives the
  same response for every stale or gapped fragment.
\<close>

theorem C2_replay_header_misspelled:
  "status (bitsFragment exLib exHandler exEnv
            (exFragment ''/up/hello.txt'' ''bytes 0-4/10'' ''5'' ''Hello'') exId exDone) = Some 416
   \<and> header (bitsFragment exLib exHandler exEnv
            (exFragment ''/up/hello.txt'' ''bytes 0-4/10'' ''5'' ''Hello'') exId exDone)
       = [(''BITS-Recieved-Content-Range'', ''10''), (''BITS-Packet-Type'', ''Ack''),
          (''BITS-Session-Id'', exId), (''BITS-Error-Code'', ''0x00000000''),
          (''BITS-Error-Context'', ''0x00000005'')]
   \<and> map_of (header (bitsFragment exLib exHandler exEnv
            (exFragment ''/up/hello.txt'' ''bytes 0-4/10'' ''5'' ''Hello'') exId exDone))
         ''BITS-Received-Content-Range'' = None
   \<and> fileBytes (bitsFragment exLib exHandler exEnv
            (exFragment ''/up/hello.txt'' ''bytes 0-4/10'' ''5'' ''Hello'') exId exDone) exHelloPath
       = ''HelloWorld''"
proof -
  let ?f = "\<lparr>src = exHelloPath, rangeStart = 0, rangeEnd = 4, fileLength = 10,
                  fragmentSize = 5, data = ''Hello''\<rparr>"
  note c = ex_checks_hello[OF exDone_fields(1)]
  have o: "bitsFragment_open exEnv exId ?f (exDone\<lparr>dirs := insert exDir (dirs exDone)\<rparr>)
      = Inr (10, exDone\<lparr>dirs := insert exDir (dirs exDone)\<rparr>)"
    using ex_open[OF exDone_fields(2) exHelloPath_not_dir, of 0 4 10 5 "''Hello''"] exDone_fields by simp
  have out: "rangeEnd ?f < 10 \<or> rangeStart ?f > 10" by simp
  have ten: "FormatUint 10 = ''10''" by (simp add: FormatUint_def digits.simps)
  note th = stale_or_gap_response[OF c o out exDone_fields(5), of exHelloPath]
  show ?thesis using th exDone_fields ten hex8_0 hex8_5
    by (simp add: ErrorContextRemoteFile_def exId_def)
qed

subsection \<open>The acknowledged size\<close>

text \<open>
  Claim C9.  When a fragment request is answered with status 200, the value of the header
  \<^verbatim>\<open>BITS-Received-Content-Range\<close> is \<open>rangeEnd + 1\<close>; it is at least the size the file
  had before the request, at most the total length announced in \<^verbatim>\<open>Content-Range\<close>,
  and it is the size of the file after the request.  So each acknowledged value is the
  size from which the next request for the same file starts.
\<close>

theorem C9_ack_bounds:
  assumes fresh: "status s = None"
      and ok: "status (bitsFragment lib h env r uuid s) = Some 200"
      and range: "parseRange (Get r ''Content-Range'') = Some (a, b, c)"
  shows "header (bitsFragment lib h env r uuid s) =
           header s @ [(''BITS-Packet-Type'', ''Ack''), (''BITS-Session-Id'', uuid),
                       (''BITS-Received-Content-Range'', FormatUint (b + 1))]
       \<and> (of_nat (length (fileBytes s (fragmentPath lib h r uuid))) :: uint64) \<le> b + 1
       \<and> b + 1 \<le> c
       \<and> (of_nat (length (fileBytes (bitsFragment lib h env r uuid s)
                                     (fragmentPath lib h r uuid))) :: uint64) = b + 1"
proof (cases rule: bitsFragment_cases[where lib=lib and h=h and env=env and r=r and uuid=uuid and s=s])
  case (early u c s0)
  then show ?thesis using fresh ok by auto
next
  case (reached f s1 fileSize s2)
  note c = checks_Inr[OF reached(1)]
  note rf = reached_fields[OF reached(1,2)]
  have p: "src f = fragmentPath lib h r uuid" by (rule checks_Inr_src[OF reached(1)])
  have abc: "rangeStart f = a" "rangeEnd f = b" "fileLength f = c" using c(8) range by simp_all
  have lt: "rangeEnd f < fileLength f" using parseRange_bounds[OF c(8)] by simp
  have st2: "status s2 = None" using rf fresh by simp
  show ?thesis
  proof (cases rule: write_elim[where f=f and fileSize=fileSize and h=h and env=env and uuid=uuid and s=s2])
    case panic
    then show ?thesis using ok reached(3) st2 by (simp add: bitsFragment_write_def Let_def split: if_splits)
  next
    case rejected
    then show ?thesis using ok reached(3) st2 by simp
  next
    case (failed ys)
    then show ?thesis using ok reached(3) st2 by simp
  next
    case (acked wr)
    note v = acked_value[OF acked(1,2) lt c(14) acked(5)]
    have le: "wr \<le> length (drop (unat (fileSize - rangeStart f)) (data f))"
      unfolding acked(4) by (rule writtenBytes_le)
    have hd: "header (bitsFragment lib h env r uuid s) =
           header s @ [(''BITS-Packet-Type'', ''Ack''), (''BITS-Session-Id'', uuid),
                       (''BITS-Received-Content-Range'', FormatUint (rangeEnd f + 1))]"
      using reached(3) acked(6) v(1) rf(1) by simp
    have fb: "fileBytes (bitsFragment lib h env r uuid s) (src f) =
        fileBytes s (src f) @ take wr (drop (unat (fileSize - rangeStart f)) (data f))"
      using reached(3) acked(6) rf(5)[of "src f"] by (simp add: fileBytes_def)
    have "(of_nat (length (fileBytes (bitsFragment lib h env r uuid s) (src f))) :: uint64)
        = fileSize + of_nat wr"
      using fb le rf(7) by (simp add: min_absorb2)
    then show ?thesis using hd v rf(7) p abc by simp
  qed
qed

theorem C9_ack_bounds_witness:
  "header (bitsFragment exLib exHandler exEnv
             (exFragment ''/up/hello.txt'' ''bytes 0-4/10'' ''5'' ''Hello'') exId exPartial)
     = [(''BITS-Packet-Type'', ''Ack''), (''BITS-Session-Id'', exId),
        (''BITS-Received-Content-Range'', ''5'')]
   \<and> (of_nat (length (fileBytes exPartial exHelloPath)) :: uint64) \<le> 4 + 1
   \<and> (4 + 1 :: uint64) \<le> 10
   \<and> (of_nat (length (fileBytes (bitsFragment exLib exHandler exEnv
             (exFragment ''/up/hello.txt'' ''bytes 0-4/10'' ''5'' ''Hello'') exId exPartial)
           exHelloPath)) :: uint64) = 4 + 1"
proof -
  have r: "parseRange (Get (exFragment ''/up/hello.txt'' ''bytes 0-4/10'' ''5'' ''Hello'') ''Content-Range'')
      = Some (0, 4, 10)"
    by (simp add: Get_exFragment ex_parse_0_4_10)
  have five: "FormatUint 5 = ''5''" by (simp add: FormatUint_def digits.simps)
  show ?thesis
    using C9_ack_bounds[OF exPartial_fields(5) ex_hello_partial_status r] exPartial_fields five
    by (simp add: ex_path)
qed

subsection \<open>The order of the checks\<close>

text \<open>
  Claim C3.  When \<^verbatim>\<open>os.MkdirAll\<close> on the existing session directory succeeds, the
  first precondition of the specification's list that fails decides the response of
  \<^verbatim>\<open>bitsFragment\<close>: the error acknowledgement with status 413 for the maximal size and
  400 for every other precondition (with an empty session id in the header when the id is
  malformed), whatever the later preconditions say; when none fails the request passes the
  checks.
\<close>

theorem C3_first_failure_wins:
  assumes mk: "\<not> MkdirAll_fails env" and fresh: "status s = None"
  shows "(\<forall>p. firstFailure lib h env r uuid s = Some p \<longrightarrow>
            status (bitsFragment lib h env r uuid s) = Some (failureStatus p)
          \<and> (\<exists>s0. bitsFragment lib h env r uuid s =
                     bitsError (if p = SessionIdWellFormed then [] else uuid)
                       (failureStatus p) 0 ErrorContextRemoteFile s0
                 \<and> header s0 = header s \<and> status s0 = status s \<and> body s0 = body s
                 \<and> files s0 = files s \<and> trace s0 = trace s))
       \<and> (firstFailure lib h env r uuid s = None \<longrightarrow>
            (\<exists>f s1. bitsFragment_checks lib h env r uuid s = Inr (f, s1)))"
proof (cases "isValidUUID uuid")
  case False
  have "firstFailure lib h env r uuid s = Some SessionIdWellFormed"
    using False by (simp add: firstFailure_def)
  moreover have "bitsFragment lib h env r uuid s = bitsError [] 400 0 ErrorContextRemoteFile s"
    by (simp add: bitsFragment_def checks_fail_uuid[OF False])
  ultimately show ?thesis using fresh by (auto simp: failureStatus_def)
next
  case valid: True
  show ?thesis
  proof (cases "fst (exists env s (path_Join lib (TempDir (cfg h)) uuid))")
    case False
    have "firstFailure lib h env r uuid s = Some SessionDirExists"
      using valid False by (simp add: firstFailure_def)
    moreover have "bitsFragment lib h env r uuid s = bitsError uuid 400 0 ErrorContextRemoteFile s"
      by (simp add: bitsFragment_def checks_fail_session[OF valid False])
    ultimately show ?thesis using fresh by (auto simp: failureStatus_def)
  next
    case dir: True
    define s1 where "s1 = s\<lparr>dirs := insert (path_Join lib (TempDir (cfg h)) uuid) (dirs s)\<rparr>"
    have s1: "header s1 = header s" "status s1 = status s" "body s1 = body s"
      "files s1 = files s" "trace s1 = trace s" by (simp_all add: s1_def)
    show ?thesis
    proof (cases "snd (path_Split (RequestURI r)) = []")
      case True
      have "firstFailure lib h env r uuid s = Some FilenameNonEmpty"
        using valid dir True by (simp add: firstFailure_def)
      moreover have "bitsFragment lib h env r uuid s = bitsError uuid 400 0 ErrorContextRemoteFile s1"
        by (simp add: bitsFragment_def checks_fail_filename[OF valid dir mk True] s1_def)
      ultimately show ?thesis using fresh s1 by (auto simp: failureStatus_def)
    next
      case name: False
      show ?thesis
      proof (cases "disallowedLoop lib (Disallowed (cfg h)) (snd (path_Split (RequestURI r)))
           \<or> allowedLoop lib (Allowed (cfg h)) (snd (path_Split (RequestURI r))) \<noteq> Some True")
        case True
        have "firstFailure lib h env r uuid s = Some FilterPasses"
          using valid dir name True by (simp add: firstFailure_def)
        moreover have "bitsFragment lib h env r uuid s = bitsError uuid 400 0 ErrorContextRemoteFile s1"
          by (simp add: bitsFragment_def checks_fail_filter[OF valid dir mk name True] s1_def)
        ultimately show ?thesis using fresh s1 by (auto simp: failureStatus_def)
      next
        case False
        then have flt: "\<not> disallowedLoop lib (Disallowed (cfg h)) (snd (path_Split (RequestURI r)))"
          "allowedLoop lib (Allowed (cfg h)) (snd (path_Split (RequestURI r))) = Some True"
          by simp_all
        note ck = checks_after_filter[OF valid dir mk name flt, folded s1_def]
        have ff: "firstFailure lib h env r uuid s =
           (case parseRange (Get r ''Content-Range'') of
                 None \<Rightarrow> Some ContentRangeParses
               | Some (a, b, c) \<Rightarrow>
                   if \<not> (MaxSize (cfg h) = 0 \<or> c \<le> MaxSize (cfg h)) then Some WithinMaxSize
                   else (case ParseUint (Get r ''Content-Length'') of
                           None \<Rightarrow> Some ContentLengthParses
                         | Some n \<Rightarrow>
                             if ReadAll_fails env \<or> of_nat (length (Body r)) \<noteq> n
                             then Some BodyLengthMatches
                             else if b - a + 1 \<noteq> n then Some RangeSizeMatches
                             else None))"
          using valid dir name flt by (simp add: firstFailure_def)
        show ?thesis
        proof (cases "parseRange (Get r ''Content-Range'')")
          case None
          then show ?thesis using ff ck fresh s1
            by (auto simp: bitsFragment_def failureStatus_def Let_def)
        next
          case (Some abc)
          obtain a b c where abc: "abc = (a, b, c)" by (cases abc)
          note pr = Some[unfolded abc]
          show ?thesis
          proof (cases "MaxSize (cfg h) > 0 \<and> c > MaxSize (cfg h)")
            case True
            then have "\<not> (MaxSize (cfg h) = 0 \<or> c \<le> MaxSize (cfg h))"
              by (auto simp: not_le)
            then show ?thesis using True pr ff ck fresh s1
              by (auto simp: bitsFragment_def failureStatus_def Let_def)
          next
            case small: False
            then have sm: "MaxSize (cfg h) = 0 \<or> c \<le> MaxSize (cfg h)"
              by (auto simp: not_le word_gt_0)
            show ?thesis
            proof (cases "ParseUint (Get r ''Content-Length'')")
              case None
              then show ?thesis using small sm pr ff ck fresh s1
                by (auto simp: bitsFragment_def failureStatus_def Let_def)
            next
              case (Some n)
              then show ?thesis using small sm pr ff ck fresh s1
                by (auto simp: bitsFragment_def failureStatus_def Let_def)
            qed
          qed
        qed
      qed
    qed
  qed
qed

theorem C3_first_failure_wins_witness:
  "firstFailure exLib exHandler exEnv
     (exFragment ''/up/hello.txt'' ''bytes 0-49/200'' ''50'' ''x'') exId exSession
     = Some WithinMaxSize
   \<and> status (bitsFragment exLib exHandler exEnv
        (exFragment ''/up/hello.txt'' ''bytes 0-49/200'' ''50'' ''x'') exId exSession) = Some 413
   \<and> firstFailure exLib exHandler exEnv
     (exFragment ''/up/hello.txt'' ''bogus'' ''5'' ''Hello'') exId exSession
     = Some ContentRangeParses
   \<and> status (bitsFragment exLib exHandler exEnv
        (exFragment ''/up/hello.txt'' ''bogus'' ''5'' ''Hello'') exId exSession) = Some 400"
  using C3_first_failure_wins[OF exEnv_fields(1) exSession_fields(5), of exLib exHandler
      "exFragment ''/up/hello.txt'' ''bytes 0-49/200'' ''50'' ''x''" exId]
    C3_first_failure_wins[OF exEnv_fields(1) exSession_fields(5), of exLib exHandler
      "exFragment ''/up/hello.txt'' ''bogus'' ''5'' ''Hello''" exId]
    ex_firstFailure_too_large ex_firstFailure_bogus
  by (simp add: failureStatus_def)

subsection \<open>Create-Session\<close>

lemma Split_nonempty: "Split t sep \<noteq> []"
  by (induction t) (auto split: list.splits)

lemma protocolLoop_found:
  "ps \<noteq> [] \<Longrightarrow> protocolLoop want ps cur = want \<longleftrightarrow> want \<in> set ps"
proof (induction ps arbitrary: cur)
  case Nil
  then show ?case by simp
next
  case (Cons p ps)
  show ?case
  proof (cases "p = want")
    case True
    then show ?thesis by simp
  next
    case False
    show ?thesis
    proof (cases ps)
      case Nil
      then show ?thesis using False by auto
    next
      case (Cons q qs)
      then have "ps \<noteq> []" by simp
      from Cons.IH[OF this, of p] show ?thesis using False by auto
    qed
  qed
qed

lemma bitsCreate_protocol:
  "protocolLoop (Protocol (cfg h)) (Split (Get r ''BITS-Supported-Protocols'') CHR '' '') []
     = Protocol (cfg h)
   \<longleftrightarrow> Protocol (cfg h) \<in> set (Split (Get r ''BITS-Supported-Protocols'') CHR '' '')"
  by (rule protocolLoop_found[OF Split_nonempty])

text \<open>
  Claim C5, amended.  For every Create-Session request: when no token of
  \<^verbatim>\<open>BITS-Supported-Protocols\<close>, split at every single space character, equals the
  configured protocol, the response is the error acknowledgement with status 400;
  otherwise the response is the error acknowledgement with status 500 when the session id
  cannot be minted or the directory cannot be made, and else status 200 with the headers
  \<^verbatim>\<open>BITS-Packet-Type: Ack\<close>, \<^verbatim>\<open>BITS-Protocol\<close> (the configured protocol),
  \<^verbatim>\<open>BITS-Session-Id\<close> (the new id) and \<^verbatim>\<open>Accept-Encoding: Identity\<close>, the session
  directory made, and the callback (when installed) called before the response is sent.
\<close>

theorem C5_create_session:
  assumes fresh: "status s = None"
  shows "(Protocol (cfg h) \<notin> set (Split (Get r ''BITS-Supported-Protocols'') CHR '' '') \<longrightarrow>
            bitsCreate lib h env r s = bitsError [] 400 0 ErrorContextRemoteFile s
          \<and> status (bitsCreate lib h env r s) = Some 400)
       \<and> (Protocol (cfg h) \<in> set (Split (Get r ''BITS-Supported-Protocols'') CHR '' '') \<longrightarrow>
            (newUUID env = None \<or> MkdirAll_fails env \<longrightarrow>
               bitsCreate lib h env r s = bitsError [] 500 0 ErrorContextRemoteFile s
             \<and> status (bitsCreate lib h env r s) = Some 500)
          \<and> (\<forall>uuid. newUUID env = Some uuid \<and> \<not> MkdirAll_fails env \<longrightarrow>
               status (bitsCreate lib h env r s) = Some 200
             \<and> header (bitsCreate lib h env r s) =
                 header s @ [(''BITS-Packet-Type'', ''Ack''),
                             (''BITS-Protocol'', Protocol (cfg h)),
                             (''BITS-Session-Id'', uuid),
                             (''Accept-Encoding'', ''Identity'')]
             \<and> body (bitsCreate lib h env r s) = body s
             \<and> dirs (bitsCreate lib h env r s) =
                 insert (path_Join lib (TempDir (cfg h)) uuid) (dirs s)
             \<and> files (bitsCreate lib h env r s) = files s
             \<and> trace (bitsCreate lib h env r s) =
                 trace s @ (if callback h
                            then [Callback EventCreateSession uuid
                                    (path_Join lib (TempDir (cfg h)) uuid)]
                            else []) @ [WroteHeader 200]))"
proof (cases "Protocol (cfg h) \<in> set (Split (Get r ''BITS-Supported-Protocols'') CHR '' '')")
  case False
  then have "protocolLoop (Protocol (cfg h)) (Split (Get r ''BITS-Supported-Protocols'') CHR '' '') []
     \<noteq> Protocol (cfg h)" by (simp add: bitsCreate_protocol)
  then have "bitsCreate lib h env r s = bitsError [] 400 0 ErrorContextRemoteFile s"
    by (simp add: bitsCreate_def Let_def)
  then show ?thesis using False fresh by simp
next
  case True
  then have p: "protocolLoop (Protocol (cfg h)) (Split (Get r ''BITS-Supported-Protocols'') CHR '' '') []
     = Protocol (cfg h)" by (simp add: bitsCreate_protocol)
  show ?thesis
  proof (cases "newUUID env")
    case None
    then have "bitsCreate lib h env r s = bitsError [] 500 0 ErrorContextRemoteFile s"
      using p by (simp add: bitsCreate_def Let_def)
    then show ?thesis using True None fresh by simp
  next
    case (Some u)
    show ?thesis
    proof (cases "MkdirAll_fails env")
      case fails: True
      then have "bitsCreate lib h env r s = bitsError [] 500 0 ErrorContextRemoteFile s"
        using p Some by (simp add: bitsCreate_def Let_def MkdirAll_def)
      then show ?thesis using True Some fails fresh by simp
    next
      case False
      then have "bitsCreate lib h env r s =
          Write []
            (Header_Add ''Accept-Encoding'' ''Identity''
              (Header_Add ''BITS-Session-Id'' u
                (Header_Add ''BITS-Protocol'' (Protocol (cfg h))
                  (Header_Add ''BITS-Packet-Type'' ''Ack''
                    (doCallback h EventCreateSession u (path_Join lib (TempDir (cfg h)) u)
                      (s\<lparr>dirs := insert (path_Join lib (TempDir (cfg h)) u) (dirs s)\<rparr>))))))"
        using p Some by (simp add: bitsCreate_def Let_def MkdirAll_def)
      then show ?thesis using True Some False fresh by simp
    qed
  qed
qed

lemma ex_protocol: "Protocol (cfg exHandler) = ''{7df0354d-249b-430f-820d-3d2a9bef4931}''"
  by (simp add: exHandler_def exConfig_def)

lemma Get_exCreate:
  "Get (exCreate ps) ''BITS-Supported-Protocols'' = ps"
  "Get (exCreate ps) ''BITS-Packet-Type'' = ''Create-Session''"
  by (simp_all add: Get_def exCreate_def)

lemma exEmpty_fields:
  "status exEmpty = None" "header exEmpty = []" "body exEmpty = []" "trace exEmpty = []"
  "dirs exEmpty = {''/tmp/bits''}"
  by (simp_all add: exEmpty_def)

theorem C5_create_session_witness:
  "status (bitsCreate exLib exHandler exEnv
             (exCreate ''{7df0354d-249b-430f-820d-3d2a9bef4931}'') exEmpty) = Some 200
   \<and> header (bitsCreate exLib exHandler exEnv
             (exCreate ''{7df0354d-249b-430f-820d-3d2a9bef4931}'') exEmpty)
       = [(''BITS-Packet-Type'', ''Ack''),
          (''BITS-Protocol'', ''{7df0354d-249b-430f-820d-3d2a9bef4931}''),
          (''BITS-Session-Id'', exId), (''Accept-Encoding'', ''Identity'')]
   \<and> exDir \<in> dirs (bitsCreate exLib exHandler exEnv
             (exCreate ''{7df0354d-249b-430f-820d-3d2a9bef4931}'') exEmpty)
   \<and> trace (bitsCreate exLib exHandler exEnv
             (exCreate ''{7df0354d-249b-430f-820d-3d2a9bef4931}'') exEmpty)
       = [Callback EventCreateSession exId exDir, WroteHeader 200]"
proof -
  have m: "Protocol (cfg exHandler)
      \<in> set (Split (Get (exCreate ''{7df0354d-249b-430f-820d-3d2a9bef4931}'')
                 ''BITS-Supported-Protocols'') CHR '' '')"
    by (simp add: Get_exCreate ex_protocol)
  have e: "newUUID exEnv = Some exId" "\<not> MkdirAll_fails exEnv" "callback exHandler"
    by (simp_all add: exEnv_def exHandler_def)
  show ?thesis
    using C5_create_session[OF exEmpty_fields(1), where h=exHandler
        and r="exCreate ''{7df0354d-249b-430f-820d-3d2a9bef4931}''" and env=exEnv and lib=exLib] m e
    by (simp add: exEmpty_fields ex_protocol ex_join)
qed

text \<open>
  Claim C5 as stated fails for a list that is separated by a tab: the configured protocol
  is one of the whitespace-separated tokens, and the response is 400.
\<close>

theorem C5_tab_separated_counterexample:
  "Protocol (cfg exHandler)
     \<in> set (Fields (Get (exCreate (''x'' @ [CHR 0x09] @ ''{7df0354d-249b-430f-820d-3d2a9bef4931}''))
                 ''BITS-Supported-Protocols''))
   \<and> status (bitsCreate exLib exHandler exEnv
        (exCreate (''x'' @ [CHR 0x09] @ ''{7df0354d-249b-430f-820d-3d2a9bef4931}'')) exEmpty)
      = Some 400"
proof -
  have f: "Protocol (cfg exHandler)
     \<in> set (Fields (Get (exCreate (''x'' @ [CHR 0x09] @ ''{7df0354d-249b-430f-820d-3d2a9bef4931}''))
                 ''BITS-Supported-Protocols''))"
    by (simp add: Get_exCreate ex_protocol isSpace_def)
  have n: "Protocol (cfg exHandler)
     \<notin> set (Split (Get (exCreate (''x'' @ [CHR 0x09] @ ''{7df0354d-249b-430f-820d-3d2a9bef4931}''))
                 ''BITS-Supported-Protocols'') CHR '' '')"
    by (simp add: Get_exCreate ex_protocol)
  have "protocolLoop (Protocol (cfg exHandler))
      (Split (Get (exCreate (''x'' @ [CHR 0x09] @ ''{7df0354d-249b-430f-820d-3d2a9bef4931}''))
                 ''BITS-Supported-Protocols'') CHR '' '') [] \<noteq> Protocol (cfg exHandler)"
    using n by (simp only: bitsCreate_protocol not_False_eq_True)
  then have "bitsCreate exLib exHandler exEnv
        (exCreate (''x'' @ [CHR 0x09] @ ''{7df0354d-249b-430f-820d-3d2a9bef4931}'')) exEmpty
      = bitsError [] 400 0 ErrorContextRemoteFile exEmpty"
    by (simp add: bitsCreate_def Let_def)
  then show ?thesis using f by (simp add: exEmpty_fields)
qed

subsection \<open>The filter on file names\<close>

lemma disallowedLoop_match:
  "\<exists>reg \<in> set regs. regexp_MatchString lib reg filename = Some True
   \<Longrightarrow> disallowedLoop lib regs filename"
  by (induction regs) (auto split: option.splits)

lemma allowedLoop_no_match:
  "\<forall>reg \<in> set regs. regexp_MatchString lib reg filename \<noteq> Some True
   \<Longrightarrow> allowedLoop lib regs filename \<noteq> Some True"
  by (induction regs) (auto split: option.splits)

lemma disallowedLoop_none:
  "\<forall>reg \<in> set regs. regexp_MatchString lib reg filename = Some False
   \<Longrightarrow> \<not> disallowedLoop lib regs filename"
  by (induction regs) (auto split: option.splits)

lemma allowedLoop_match:
  "\<forall>reg \<in> set regs. regexp_MatchString lib reg filename \<noteq> None
   \<Longrightarrow> \<exists>reg \<in> set regs. regexp_MatchString lib reg filename = Some True
   \<Longrightarrow> allowedLoop lib regs filename = Some True"
  by (induction regs) (auto split: option.splits)

text \<open>
  Claim C6, amended.  In a fragment request whose session and file name are in order, a
  match of any pattern of \<^verbatim>\<open>Disallowed\<close> rejects the request whatever \<^verbatim>\<open>Allowed\<close>
  holds, and so does the absence of a match among the patterns of \<^verbatim>\<open>Allowed\<close>; the
  rejection is the error acknowledgement with status 400 (BadRequest).  When all patterns
  compile, none of \<^verbatim>\<open>Disallowed\<close> matches and one of \<^verbatim>\<open>Allowed\<close> matches, the file name
  passes the filter.
\<close>

theorem C6_filter_rejects_bad_request:
  assumes valid: "isValidUUID uuid"
      and dir: "fst (exists env s (path_Join lib (TempDir (cfg h)) uuid))"
      and mk: "\<not> MkdirAll_fails env"
      and name: "snd (path_Split (RequestURI r)) \<noteq> []"
      and fresh: "status s = None"
  shows "((\<exists>reg \<in> set (Disallowed (cfg h)).
              regexp_MatchString lib reg (snd (path_Split (RequestURI r))) = Some True)
          \<or> (\<forall>reg \<in> set (Allowed (cfg h)).
              regexp_MatchString lib reg (snd (path_Split (RequestURI r))) \<noteq> Some True)
          \<longrightarrow> bitsFragment lib h env r uuid s =
                bitsError uuid 400 0 ErrorContextRemoteFile
                  (s\<lparr>dirs := insert (path_Join lib (TempDir (cfg h)) uuid) (dirs s)\<rparr>)
              \<and> status (bitsFragment lib h env r uuid s) = Some 400)
       \<and> ((\<forall>reg \<in> set (Disallowed (cfg h)).
              regexp_MatchString lib reg (snd (path_Split (RequestURI r))) = Some False)
          \<and> (\<forall>reg \<in> set (Allowed (cfg h)).
              regexp_MatchString lib reg (snd (path_Split (RequestURI r))) \<noteq> None)
          \<and> (\<exists>reg \<in> set (Allowed (cfg h)).
              regexp_MatchString lib reg (snd (path_Split (RequestURI r))) = Some True)
          \<longrightarrow> \<not> disallowedLoop lib (Disallowed (cfg h)) (snd (path_Split (RequestURI r)))
              \<and> allowedLoop lib (Allowed (cfg h)) (snd (path_Split (RequestURI r))) = Some True
              \<and> firstFailure lib h env r uuid s \<noteq> Some FilterPasses)"
proof -
  let ?fn = "snd (path_Split (RequestURI r))"
  have rej: "bitsFragment lib h env r uuid s =
                bitsError uuid 400 0 ErrorContextRemoteFile
                  (s\<lparr>dirs := insert (path_Join lib (TempDir (cfg h)) uuid) (dirs s)\<rparr>)
              \<and> status (bitsFragment lib h env r uuid s) = Some 400"
    if "disallowedLoop lib (Disallowed (cfg h)) ?fn
           \<or> allowedLoop lib (Allowed (cfg h)) ?fn \<noteq> Some True"
    using checks_fail_filter[OF valid dir mk name that] fresh
    by (simp add: bitsFragment_def)
  have pass: "firstFailure lib h env r uuid s \<noteq> Some FilterPasses"
    if "\<not> disallowedLoop lib (Disallowed (cfg h)) ?fn"
      "allowedLoop lib (Allowed (cfg h)) ?fn = Some True"
    using that valid dir name
    by (auto simp: firstFailure_def Let_def split: option.splits if_splits)
  show ?thesis
    using rej pass disallowedLoop_match[of "Disallowed (cfg h)" lib ?fn]
      allowedLoop_no_match[of "Allowed (cfg h)" lib ?fn]
      disallowedLoop_none[of "Disallowed (cfg h)" lib ?fn]
      allowedLoop_match[of "Allowed (cfg h)" lib ?fn]
    by blast
qed

lemma ex_secret_name:
  "snd (path_Split (RequestURI (exFragment ''/up/secret.txt'' cr cl bytes))) = ''secret.txt''"
  by (simp add: path_Split_def exFragment_def)

lemma ex_secret_match:
  "regexp_MatchString exLib ''^secret'' ''secret.txt'' = Some True"
  "regexp_MatchString exLib ''[.]txt$'' ''secret.txt'' = Some True"
  by (simp_all add: exLib_def exMatch_def)

lemma ex_lists: "Disallowed (cfg exHandler) = [''^secret'']" "Allowed (cfg exHandler) = [''[.]txt$'']"
  by (simp_all add: exHandler_def exConfig_def)

theorem C6_filter_rejects_bad_request_witness:
  "regexp_MatchString exLib ''^secret'' ''secret.txt'' = Some True
   \<and> regexp_MatchString exLib ''[.]txt$'' ''secret.txt'' = Some True
   \<and> status (bitsFragment exLib exHandler exEnv
        (exFragment ''/up/secret.txt'' ''bytes 0-4/10'' ''5'' ''Hello'') exId exSession) = Some 400"
proof -
  have n: "snd (path_Split (RequestURI (exFragment ''/up/secret.txt'' ''bytes 0-4/10'' ''5'' ''Hello''))) \<noteq> []"
    by (simp add: ex_secret_name)
  show ?thesis
    using C6_filter_rejects_bad_request[OF isValidUUID_exId
        ex_session_exists[OF exSession_fields(1)] exEnv_fields(1) n exSession_fields(5)]
      ex_secret_match exSession_fields(5)
    by (simp add: ex_secret_name ex_lists)
qed

text \<open>
  Claim C6 as stated fails in its last part: a file name that a pattern of
  \<^verbatim>\<open>Disallowed\<close> matches is answered with status 400, not 403 (Forbidden).
\<close>

theorem C6_forbidden_counterexample:
  "regexp_MatchString exLib ''^secret'' ''secret.txt'' = Some True
   \<and> status (bitsFragment exLib exHandler exEnv
        (exFragment ''/up/secret.txt'' ''bytes 0-4/10'' ''5'' ''Hello'') exId exSession) = Some 400
   \<and> status (bitsFragment exLib exHandler exEnv
        (exFragment ''/up/secret.txt'' ''bytes 0-4/10'' ''5'' ''Hello'') exId exSession) \<noteq> Some 403"
proof -
  have n: "snd (path_Split (RequestURI (exFragment ''/up/secret.txt'' ''bytes 0-4/10'' ''5'' ''Hello''))) \<noteq> []"
    by (simp add: ex_secret_name)
  have d: "disallowedLoop exLib (Disallowed (cfg exHandler))
      (snd (path_Split (RequestURI (exFragment ''/up/secret.txt'' ''bytes 0-4/10'' ''5'' ''Hello''))))
    \<or> allowedLoop exLib (Allowed (cfg exHandler))
      (snd (path_Split (RequestURI (exFragment ''/up/secret.txt'' ''bytes 0-4/10'' ''5'' ''Hello''))))
      \<noteq> Some True"
    by (simp add: ex_secret_name ex_lists ex_secret_match)
  have "bitsFragment exLib exHandler exEnv
        (exFragment ''/up/secret.txt'' ''bytes 0-4/10'' ''5'' ''Hello'') exId exSession
      = bitsError exId 400 0 ErrorContextRemoteFile
          (exSession\<lparr>dirs := insert (path_Join exLib (TempDir (cfg exHandler)) exId) (dirs exSession)\<rparr>)"
    using checks_fail_filter[OF isValidUUID_exId ex_session_exists[OF exSession_fields(1)]
        exEnv_fields(1) n d]
    by (simp add: bitsFragment_def)
  then show ?thesis using ex_secret_match exSession_fields(5) by simp
qed

subsection \<open>Error responses\<close>

lemma bitsError_errorAck:
  assumes "body s = []"
  shows "errorAck (bitsError u c 0 ErrorContextRemoteFile s)"
  using assms by (simp add: errorAck_def hex8_0 hex8_5 ErrorContextRemoteFile_def image_iff)

lemma bitsCreate_outcome:
  assumes "status s = None" "body s = []"
  shows "status (bitsCreate lib h env r s) = Some 200 \<or> errorAck (bitsCreate lib h env r s)"
  using assms bitsError_errorAck[of s]
  by (auto simp: bitsCreate_def Let_def MkdirAll_def split: option.splits)

lemma bitsCancel_outcome:
  assumes "status s = None" "body s = []"
  shows "status (bitsCancel lib h env r uuid s) = Some 200 \<or> errorAck (bitsCancel lib h env r uuid s)"
  using assms bitsError_errorAck[of s]
  by (auto simp: bitsCancel_def Let_def split: prod.splits)

lemma bitsClose_outcome:
  assumes "status s = None" "body s = []"
  shows "status (bitsClose lib h env r uuid s) = Some 200 \<or> errorAck (bitsClose lib h env r uuid s)"
  using assms bitsError_errorAck[of s]
  by (auto simp: bitsClose_def Let_def split: prod.splits)

lemma bitsFragment_outcome:
  assumes fresh: "status s = None" and empty: "body s = []"
  shows "status (bitsFragment lib h env r uuid s) = Some 200
       \<or> status (bitsFragment lib h env r uuid s) = None
       \<or> errorAck (bitsFragment lib h env r uuid s)"
proof (cases rule: bitsFragment_cases[where lib=lib and h=h and env=env and r=r and uuid=uuid and s=s])
  case (early u c s0)
  then show ?thesis using bitsError_errorAck[of s0] empty by simp
next
  case (reached f s1 fileSize s2)
  note rf = reached_fields[OF reached(1,2)]
  show ?thesis
  proof (cases rule: write_elim[where f=f and fileSize=fileSize and h=h and env=env and uuid=uuid and s=s2])
    case panic
    then show ?thesis using reached(3) rf fresh by simp
  next
    case rejected
    have "errorAck (bitsError uuid 416 0 ErrorContextRemoteFile
        (Header_Add ''BITS-Recieved-Content-Range'' (FormatUint fileSize) s2))"
      by (rule bitsError_errorAck) (simp add: rf empty)
    then show ?thesis using rejected reached(3) by simp
  next
    case (failed ys)
    have "errorAck (bitsError uuid 500 0 ErrorContextRemoteFile
        (s2\<lparr>files := (files s2)(src f \<mapsto> fileBytes s2 (src f) @ ys)\<rparr>))"
      by (rule bitsError_errorAck) (simp add: rf empty)
    then show ?thesis using failed reached(3) by simp
  next
    case (acked wr)
    then show ?thesis using reached(3) rf fresh by simp
  qed
qed

lemma http_Error_fresh:
  assumes "status s = None" "body s = []" "header s = []"
  shows "status (http_Error msg c s) = Some c"
    and "body (http_Error msg c s) = msg @ [CHR 0x0A]"
    and "header (http_Error msg c s) =
           [(''Content-Type'', ''text/plain; charset=utf-8''),
            (''X-Content-Type-Options'', ''nosniff'')]"
    and "\<not> errorAck (http_Error msg c s)"
  using assms
  by (simp_all add: http_Error_def Header_Set_def Header_Del_def errorAck_def)

lemma allowed_method_acks:
  assumes dump: "\<not> DumpRequest_fails env"
      and allowed: "Method r = AllowedMethod (cfg h)"
      and fresh: "status s = None" and empty: "body s = []"
  shows "(strings_ToLower lib (Get r ''BITS-Packet-Type'')
            \<notin> {''ping'', ''create-session'', ''cancel-session'', ''close-session'', ''fragment''}
          \<longrightarrow> ServeHTTP lib h env r s = bitsError [] 400 0 ErrorContextRemoteFile s
              \<and> status (ServeHTTP lib h env r s) = Some 400)
       \<and> (\<forall>code. status (ServeHTTP lib h env r s) = Some code \<and> code \<noteq> 200
          \<longrightarrow> errorAck (ServeHTTP lib h env r s))"
proof -
  let ?t = "strings_ToLower lib (Get r ''BITS-Packet-Type'')"
  let ?sid = "Get r ''BITS-Session-Id''"
  consider (ping) "?t = ''ping''" | (create) "?t = ''create-session''"
    | (cancel) "?t = ''cancel-session''" | (close) "?t = ''close-session''"
    | (fragment) "?t = ''fragment''"
    | (unknown) "?t \<notin> {''ping'', ''create-session'', ''cancel-session'', ''close-session'', ''fragment''}"
    by blast
  then show ?thesis
  proof cases
    case ping
    then have "ServeHTTP lib h env r s = bitsPing s" using dump allowed by (simp add: ServeHTTP_def)
    then show ?thesis using ping fresh by (simp add: bitsPing_def)
  next
    case create
    then have "ServeHTTP lib h env r s = bitsCreate lib h env r s"
      using dump allowed by (simp add: ServeHTTP_def)
    then show ?thesis using create bitsCreate_outcome[OF fresh empty, of lib h env r] by auto
  next
    case cancel
    then have "ServeHTTP lib h env r s = bitsCancel lib h env r ?sid s"
      using dump allowed by (simp add: ServeHTTP_def)
    then show ?thesis using cancel bitsCancel_outcome[OF fresh empty, of lib h env r ?sid] by auto
  next
    case close
    then have "ServeHTTP lib h env r s = bitsClose lib h env r ?sid s"
      using dump allowed by (simp add: ServeHTTP_def)
    then show ?thesis using close bitsClose_outcome[OF fresh empty, of lib h env r ?sid] by auto
  next
    case fragment
    then have "ServeHTTP lib h env r s = bitsFragment lib h env r ?sid s"
      using dump allowed by (simp add: ServeHTTP_def)
    then show ?thesis using fragment bitsFragment_outcome[OF fresh empty, of lib h env r ?sid] by auto
  next
    case unknown
    then have "ServeHTTP lib h env r s = bitsError [] 400 0 ErrorContextRemoteFile s"
      using dump allowed by (simp add: ServeHTTP_def)
    then show ?thesis using unknown fresh bitsError_errorAck[OF empty, of "[]" 400] by auto
  qed
qed

text \<open>
  Claim C8, amended.  For a request that arrives with a fresh response: when the request
  could be dumped and has the allowed method, an unknown packet type is answered with the
  error acknowledgement of status 400, and every response with a status other than 200 has
  an empty body and the headers \<^verbatim>\<open>BITS-Packet-Type: Ack\<close>, \<^verbatim>\<open>BITS-Session-Id\<close>,
  \<^verbatim>\<open>BITS-Error-Code: 0x00000000\<close> and \<^verbatim>\<open>BITS-Error-Context: 0x00000005\<close>.  Every
  request with another method is answered through \<^verbatim>\<open>http.Error\<close> with status 405, the
  text body \<open>Method not allowed\<close> and the two headers of a plain-text error, so none of
  the BITS headers; every request that cannot be dumped is answered the same way with
  status 500 and the text body \<open>Internal Server error\<close>.
\<close>

theorem C8_error_acks:
  assumes fresh: "status s = None" and empty: "body s = []" and nohdr: "header s = []"
  shows "(DumpRequest_fails env \<longrightarrow>
            status (ServeHTTP lib h env r s) = Some 500
          \<and> body (ServeHTTP lib h env r s) = ''Internal Server error'' @ [CHR 0x0A]
          \<and> header (ServeHTTP lib h env r s) =
               [(''Content-Type'', ''text/plain; charset=utf-8''),
                (''X-Content-Type-Options'', ''nosniff'')]
          \<and> \<not> errorAck (ServeHTTP lib h env r s))
       \<and> (\<not> DumpRequest_fails env \<and> Method r \<noteq> AllowedMethod (cfg h) \<longrightarrow>
            status (ServeHTTP lib h env r s) = Some 405
          \<and> body (ServeHTTP lib h env r s) = ''Method not allowed'' @ [CHR 0x0A]
          \<and> header (ServeHTTP lib h env r s) =
               [(''Content-Type'', ''text/plain; charset=utf-8''),
                (''X-Content-Type-Options'', ''nosniff'')]
          \<and> \<not> errorAck (ServeHTTP lib h env r s))
       \<and> (\<not> DumpRequest_fails env \<and> Method r = AllowedMethod (cfg h) \<longrightarrow>
            (strings_ToLower lib (Get r ''BITS-Packet-Type'')
               \<notin> {''ping'', ''create-session'', ''cancel-session'', ''close-session'',
                   ''fragment''}
             \<longrightarrow> ServeHTTP lib h env r s = bitsError [] 400 0 ErrorContextRemoteFile s
                 \<and> status (ServeHTTP lib h env r s) = Some 400)
          \<and> (\<forall>code. status (ServeHTTP lib h env r s) = Some code \<and> code \<noteq> 200
             \<longrightarrow> errorAck (ServeHTTP lib h env r s)))"
proof (intro conjI impI)
  assume d: "DumpRequest_fails env"
  then have e: "ServeHTTP lib h env r s = http_Error ''Internal Server error'' 500 s"
    by (simp add: ServeHTTP_def)
  note f = http_Error_fresh[OF fresh empty nohdr, of "''Internal Server error''" 500]
  show "status (ServeHTTP lib h env r s) = Some 500" unfolding e by (rule f(1))
  show "body (ServeHTTP lib h env r s) = ''Internal Server error'' @ [CHR 0x0A]"
    unfolding e by (rule f(2))
  show "header (ServeHTTP lib h env r s) =
               [(''Content-Type'', ''text/plain; charset=utf-8''),
                (''X-Content-Type-Options'', ''nosniff'')]" unfolding e by (rule f(3))
  show "\<not> errorAck (ServeHTTP lib h env r s)" unfolding e by (rule f(4))
next
  assume d: "\<not> DumpRequest_fails env \<and> Method r \<noteq> AllowedMethod (cfg h)"
  then have e: "ServeHTTP lib h env r s = http_Error ''Method not allowed'' 405 s"
    by (simp add: ServeHTTP_def)
  note f = http_Error_fresh[OF fresh empty nohdr, of "''Method not allowed''" 405]
  show "status (ServeHTTP lib h env r s) = Some 405" unfolding e by (rule f(1))
  show "body (ServeHTTP lib h env r s) = ''Method not allowed'' @ [CHR 0x0A]"
    unfolding e by (rule f(2))
  show "header (ServeHTTP lib h env r s) =
               [(''Content-Type'', ''text/plain; charset=utf-8''),
                (''X-Content-Type-Options'', ''nosniff'')]" unfolding e by (rule f(3))
  show "\<not> errorAck (ServeHTTP lib h env r s)" unfolding e by (rule f(4))
next
  assume d: "\<not> DumpRequest_fails env \<and> Method r = AllowedMethod (cfg h)"
    and u: "strings_ToLower lib (Get r ''BITS-Packet-Type'')
               \<notin> {''ping'', ''create-session'', ''cancel-session'', ''close-session'',
                   ''fragment''}"
  from d have dd: "\<not> DumpRequest_fails env" and a: "Method r = AllowedMethod (cfg h)" by simp_all
  note th = allowed_method_acks[OF dd a fresh empty, of lib]
  from th u show "ServeHTTP lib h env r s = bitsError [] 400 0 ErrorContextRemoteFile s" by blast
  from th u show "status (ServeHTTP lib h env r s) = Some 400" by blast
next
  assume d: "\<not> DumpRequest_fails env \<and> Method r = AllowedMethod (cfg h)"
  from d have dd: "\<not> DumpRequest_fails env" and a: "Method r = AllowedMethod (cfg h)" by simp_all
  note th = allowed_method_acks[OF dd a fresh empty, of lib]
  from th show "\<forall>code. status (ServeHTTP lib h env r s) = Some code \<and> code \<noteq> 200
             \<longrightarrow> errorAck (ServeHTTP lib h env r s)" by blast
qed

lemma ex_bogus_type: "strings_ToLower exLib (Get exBogus ''BITS-Packet-Type'') = ''bogus''"
  by (simp add: exLib_def exBogus_def Get_def asciiToLower_def)

theorem C8_error_acks_witness:
  "status (ServeHTTP exLib exHandler exEnv exBogus exEmpty) = Some 400
   \<and> errorAck (ServeHTTP exLib exHandler exEnv exBogus exEmpty)
   \<and> status (ServeHTTP exLib exHandler (exEnv\<lparr>DumpRequest_fails := True\<rparr>) exBogus exEmpty)
       = Some 500
   \<and> \<not> errorAck (ServeHTTP exLib exHandler (exEnv\<lparr>DumpRequest_fails := True\<rparr>) exBogus exEmpty)"
proof -
  have m: "Method exBogus = AllowedMethod (cfg exHandler)"
    by (simp add: exBogus_def exHandler_def exConfig_def)
  have e: "status exEmpty = None" "body exEmpty = []" "header exEmpty = []"
    by (simp_all add: exEmpty_def)
  note th = C8_error_acks[OF e, of exEnv exLib exHandler exBogus]
  note th2 = C8_error_acks[OF e, of "exEnv\<lparr>DumpRequest_fails := True\<rparr>" exLib exHandler exBogus]
  have d: "\<not> DumpRequest_fails exEnv" by (rule exEnv_fields(7))
  have d2: "DumpRequest_fails (exEnv\<lparr>DumpRequest_fails := True\<rparr>)" by simp
  have u: "strings_ToLower exLib (Get exBogus ''BITS-Packet-Type'')
      \<notin> {''ping'', ''create-session'', ''cancel-session'', ''close-session'', ''fragment''}"
    by (simp add: ex_bogus_type)
  from th d m u have st: "status (ServeHTTP exLib exHandler exEnv exBogus exEmpty) = Some 400"
    by blast
  have ne: "(400::nat) \<noteq> 200" by simp
  from th d m st ne have ack: "errorAck (ServeHTTP exLib exHandler exEnv exBogus exEmpty)" by blast
  from th2 d2 have
    "status (ServeHTTP exLib exHandler (exEnv\<lparr>DumpRequest_fails := True\<rparr>) exBogus exEmpty)
       = Some 500
     \<and> \<not> errorAck (ServeHTTP exLib exHandler (exEnv\<lparr>DumpRequest_fails := True\<rparr>) exBogus exEmpty)"
    by blast
  with st ack show ?thesis by blast
qed

text \<open>
  Claim C8 as stated fails for a request with another method: \<^verbatim>\<open>ServeHTTP\<close> answers
  it through \<^verbatim>\<open>http.Error\<close>, with status 405, a body of text and none of the BITS
  headers.
\<close>

theorem C8_method_not_allowed_counterexample:
  "status (ServeHTTP exLib exHandler exEnv exGet exEmpty) = Some 405
   \<and> body (ServeHTTP exLib exHandler exEnv exGet exEmpty) = ''Method not allowed'' @ [CHR 0x0A]
   \<and> header (ServeHTTP exLib exHandler exEnv exGet exEmpty)
       = [(''Content-Type'', ''text/plain; charset=utf-8''),
          (''X-Content-Type-Options'', ''nosniff'')]
   \<and> \<not> errorAck (ServeHTTP exLib exHandler exEnv exGet exEmpty)"
proof -
  have "ServeHTTP exLib exHandler exEnv exGet exEmpty = http_Error ''Method not allowed'' 405 exEmpty"
    by (simp add: ServeHTTP_def exEnv_fields exGet_def exHandler_def exConfig_def)
  then show ?thesis
    by (simp add: http_Error_def Header_Set_def Header_Del_def exEmpty_def errorAck_def)
qed

subsection \<open>The receive-file event\<close>

lemma checks_isFinal:
  assumes "bitsFragment_checks lib h env r uuid s = Inr (f, s1)"
  shows "isFinal r \<longleftrightarrow> rangeEnd f + 1 = fileLength f"
  using checks_Inr(8)[OF assms] by (simp add: isFinal_def)

lemma reached_no_panic:
  assumes "bitsFragment_checks lib h env r uuid s = Inr (f, s1)"
      and "\<not> rangeEnd f < fileSize" and "\<not> rangeStart f > fileSize"
  shows "\<not> length (data f) < unat (fileSize - rangeStart f)"
proof -
  note c = checks_Inr[OF assms(1)]
  have lt: "rangeEnd f < fileLength f" using parseRange_bounds[OF c(8)] by simp
  show ?thesis using write_offset_in_bounds[OF assms(2,3) lt c(13,14)] by simp
qed

lemma fragment_trace:
  assumes fresh: "status s = None"
  shows "\<exists>code. status (bitsFragment lib h env r uuid s) = Some code
       \<and> trace (bitsFragment lib h env r uuid s) =
           trace s @
           (if code = 200 \<and> isFinal r
            then [FileClose (fragmentPath lib h r uuid)]
                 @ (if callback h
                    then [Callback EventRecieveFile uuid (fragmentPath lib h r uuid)]
                    else [])
                 @ [WroteHeader 200]
            else [WroteHeader code])"
proof (cases rule: bitsFragment_cases[where lib=lib and h=h and env=env and r=r and uuid=uuid and s=s])
  case (early u c s0)
  then show ?thesis using fresh by auto
next
  case (reached f s1 fileSize s2)
  note rf = reached_fields[OF reached(1,2)]
  have p: "src f = fragmentPath lib h r uuid" by (rule checks_Inr_src[OF reached(1)])
  note fin = checks_isFinal[OF reached(1)]
  have st2: "status s2 = None" using rf fresh by simp
  show ?thesis
  proof (cases rule: write_elim[where f=f and fileSize=fileSize and h=h and env=env and uuid=uuid and s=s2])
    case rejected
    then show ?thesis using reached(3) rf st2 by simp
  next
    case panic
    then show ?thesis using reached_no_panic[OF reached(1) panic(1,2)] by simp
  next
    case (failed ys)
    then show ?thesis using reached(3) rf st2 by simp
  next
    case (acked wr)
    then show ?thesis using reached(3) rf st2 fin p by simp
  qed
qed

lemma reached_nat:
  assumes checks: "bitsFragment_checks lib h env r uuid s = Inr (f, s1)"
      and opened: "bitsFragment_open env uuid f s1 = Inr (fileSize, s2)"
      and nostale: "\<not> rangeEnd f < fileSize" and nogap: "\<not> rangeStart f > fileSize"
      and len: "length (fileBytes s (src f)) < 2 ^ 64"
      and body: "length (Body r) < 2 ^ 64"
  shows "unat fileSize = length (fileBytes s (src f))"
    and "length (data f) - unat (fileSize - rangeStart f) + length (fileBytes s (src f))
           = unat (rangeEnd f) + 1"
    and "unat (rangeEnd f) + 1 \<le> unat (fileLength f)"
    and "unat (rangeEnd f + 1) = unat (rangeEnd f) + 1"
proof -
  note c = checks_Inr[OF checks]
  note rf = reached_fields[OF checks opened]
  have lt: "rangeEnd f < fileLength f" using parseRange_bounds[OF c(8)] by simp
  have a: "rangeStart f \<le> fileSize" and b: "fileSize \<le> rangeEnd f"
    using nostale nogap by simp_all
  note ar = word_range_arith[OF a b lt]
  show fs: "unat fileSize = length (fileBytes s (src f))"
    using rf(7) len by (simp add: unat_of_nat)
  have "unat (of_nat (length (data f)) :: uint64) = length (data f)"
    using c(12) body by (simp add: unat_of_nat)
  then have "unat (fragmentSize f) = length (data f)"
    unfolding c(13) .
  then have dl: "length (data f) = unat (rangeEnd f) - unat (rangeStart f) + 1"
    using c(14) ar(2) by simp
  have le1: "unat (rangeStart f) \<le> unat fileSize" using a by (simp add: word_le_nat_alt)
  have le2: "unat fileSize \<le> unat (rangeEnd f)" using b by (simp add: word_le_nat_alt)
  show "length (data f) - unat (fileSize - rangeStart f) + length (fileBytes s (src f))
           = unat (rangeEnd f) + 1"
    using dl ar(1) le1 le2 fs by simp
  have "unat (rangeEnd f) < unat (fileLength f)" using lt by (simp add: word_less_nat_alt)
  then show "unat (rangeEnd f) + 1 \<le> unat (fileLength f)" by simp
  have "unat (rangeEnd f + 1) \<le> unat (fileLength f)" using ar(5) by (simp add: word_le_nat_alt)
  have "unat (rangeEnd f) + unat (1 :: uint64) < 2 ^ LENGTH(64)"
    using \<open>unat (rangeEnd f) < unat (fileLength f)\<close> unsigned_less[of "fileLength f", where ?'a=nat]
    by simp
  then show "unat (rangeEnd f + 1) = unat (rangeEnd f) + 1"
    by (simp add: unat_add_lem[THEN iffD1])
qed

lemma fragment_other_files:
  assumes "q \<noteq> fragmentPath lib h r uuid"
  shows "fileBytes (bitsFragment lib h env r uuid s) q = fileBytes s q"
proof (cases rule: bitsFragment_cases[where lib=lib and h=h and env=env and r=r and uuid=uuid and s=s])
  case (early u c s0)
  then show ?thesis by (simp add: fileBytes_def)
next
  case (reached f s1 fileSize s2)
  note rf = reached_fields[OF reached(1,2)]
  have p: "src f = fragmentPath lib h r uuid" by (rule checks_Inr_src[OF reached(1)])
  have q: "q \<noteq> src f" using assms p by simp
  have base: "fileBytes s2 q = fileBytes s q" by (rule rf(5))
  show ?thesis
  proof (cases rule: write_elim[where f=f and fileSize=fileSize and h=h and env=env and uuid=uuid and s=s2])
    case rejected
    then show ?thesis using reached(3) base by (simp add: fileBytes_def)
  next
    case panic
    then show ?thesis using reached(3) base by (simp add: fileBytes_def)
  next
    case (failed ys)
    then show ?thesis using reached(3) base q by (simp add: fileBytes_def)
  next
    case (acked wr)
    then show ?thesis using reached(3) base q by (simp add: fileBytes_def)
  qed
qed

lemma fragment_size:
  assumes fresh: "status s = None"
      and len: "length (fileBytes s (fragmentPath lib h r uuid)) < 2 ^ 64"
      and body: "length (Body r) < 2 ^ 64"
  shows "length (fileBytes (bitsFragment lib h env r uuid s) (fragmentPath lib h r uuid)) < 2 ^ 64
       \<and> (status (bitsFragment lib h env r uuid s) = Some 200 \<longrightarrow>
            (\<forall>a b c. parseRange (Get r ''Content-Range'') = Some (a, b, c) \<longrightarrow>
               length (fileBytes (bitsFragment lib h env r uuid s) (fragmentPath lib h r uuid))
                 = unat (b + 1)))"
proof (cases rule: bitsFragment_cases[where lib=lib and h=h and env=env and r=r and uuid=uuid and s=s])
  case (early u c s0)
  then show ?thesis using len fresh by (auto simp: fileBytes_def)
next
  case (reached f s1 fileSize s2)
  note c = checks_Inr[OF reached(1)]
  note rf = reached_fields[OF reached(1,2)]
  have p: "src f = fragmentPath lib h r uuid" by (rule checks_Inr_src[OF reached(1)])
  have len': "length (fileBytes s (src f)) < 2 ^ 64" using len p by simp
  have st2: "status s2 = None" using rf fresh by simp
  have base: "fileBytes s2 (src f) = fileBytes s (src f)" by (rule rf(5))
  have fl: "unat (fileLength f) < 2 ^ 64" using unsigned_less[of "fileLength f", where ?'a=nat] by simp
  show ?thesis
  proof (cases rule: write_elim[where f=f and fileSize=fileSize and h=h and env=env and uuid=uuid and s=s2])
    case rejected
    then show ?thesis using reached(3) base len' p st2 by (simp add: fileBytes_def)
  next
    case panic
    then show ?thesis using reached_no_panic[OF reached(1) panic(1,2)] by simp
  next
    case (failed ys)
    note n = reached_nat[OF reached(1,2) failed(1,2) len' body]
    have "fileBytes (bitsFragment lib h env r uuid s) (src f) = fileBytes s (src f) @ ys"
      using reached(3) failed(3) base by (simp add: fileBytes_def)
    then have "length (fileBytes (bitsFragment lib h env r uuid s) (src f)) < 2 ^ 64"
      using failed(5) n(2,3) fl by simp
    moreover have "status (bitsFragment lib h env r uuid s) = Some 500"
      using reached(3) failed(3) st2 by simp
    ultimately show ?thesis using p by simp
  next
    case (acked wr)
    note n = reached_nat[OF reached(1,2) acked(1,2) len' body]
    let ?chunk = "drop (unat (fileSize - rangeStart f)) (data f)"
    have lt: "rangeEnd f < fileLength f" using parseRange_bounds[OF c(8)] by simp
    have wl: "(of_nat wr :: uint64) = of_nat (length ?chunk)"
      using write_length_word[OF acked(1,2) lt c(13,14)] acked(5) by simp
    have le: "wr \<le> length ?chunk" unfolding acked(4) by (rule writtenBytes_le)
    have cl: "length ?chunk < 2 ^ 64" using n(2,3) fl by simp
    have "unat (of_nat wr :: uint64) = unat (of_nat (length ?chunk) :: uint64)" using wl by simp
    then have wr: "wr = length ?chunk" using le cl by (simp add: unat_of_nat)
    have "fileBytes (bitsFragment lib h env r uuid s) (src f) = fileBytes s (src f) @ ?chunk"
      using reached(3) acked(6) base wr by (simp add: fileBytes_def)
    then have sz: "length (fileBytes (bitsFragment lib h env r uuid s) (src f)) = unat (rangeEnd f + 1)"
      using n(2,4) by simp
    then have "length (fileBytes (bitsFragment lib h env r uuid s) (src f)) < 2 ^ 64"
      using n(3,4) fl by simp
    then show ?thesis using sz p c(8) by auto
  qed
qed

lemma fragment_complete_stale:
  assumes fresh: "status s = None"
      and range: "parseRange (Get r ''Content-Range'') = Some (a, b, c)"
      and full: "length (fileBytes s (fragmentPath lib h r uuid)) = unat c"
  shows "status (bitsFragment lib h env r uuid s) \<noteq> Some 200
       \<and> fileBytes (bitsFragment lib h env r uuid s) (fragmentPath lib h r uuid)
           = fileBytes s (fragmentPath lib h r uuid)"
proof (cases rule: bitsFragment_cases[where lib=lib and h=h and env=env and r=r and uuid=uuid and s=s])
  case (early u c s0)
  then show ?thesis using fresh by (auto simp: fileBytes_def)
next
  case (reached f s1 fileSize s2)
  note c = checks_Inr[OF reached(1)]
  note rf = reached_fields[OF reached(1,2)]
  have p: "src f = fragmentPath lib h r uuid" by (rule checks_Inr_src[OF reached(1)])
  have st2: "status s2 = None" using rf fresh by simp
  have abc: "rangeEnd f = b" "fileLength f = c" using c(8) range by simp_all
  have "fileSize = c" using rf(7) full p by simp
  moreover have "b < c" using parseRange_bounds[OF range] by simp
  ultimately have stale: "rangeEnd f < fileSize" using abc by simp
  then have "bitsFragment_write h env uuid f fileSize s2 =
      bitsError uuid 416 0 ErrorContextRemoteFile
        (Header_Add ''BITS-Recieved-Content-Range'' (FormatUint fileSize) s2)"
    by (simp add: bitsFragment_write_def)
  then show ?thesis using reached(3) st2 rf(5)[of "src f"] p by (simp add: fileBytes_def)
qed

lemma receiveCalls_append [simp]:
  "receiveCalls p (xs @ ys) = receiveCalls p xs @ receiveCalls p ys"
  by (induction p xs rule: receiveCalls.induct) auto

lemma newResponse_fields [simp]:
  "header (newResponse s) = []" "status (newResponse s) = None" "body (newResponse s) = []"
  "dirs (newResponse s) = dirs s" "files (newResponse s) = files s"
  "trace (newResponse s) = trace s" "fileBytes (newResponse s) q = fileBytes s q"
  by (simp_all add: newResponse_def fileBytes_def)

lemma http_Error_fields [simp]:
  "files (http_Error msg c s) = files s"
  "trace (http_Error msg c s) = (if status s = None then trace s @ [WroteHeader c] else trace s)"
  "status (http_Error msg c s) = (if status s = None then Some c else status s)"
  by (simp_all add: http_Error_def Header_Set_def Header_Del_def Header_Add_def)

lemma other_handlers:
  assumes "status s = None"
  shows "files (bitsPing s) = files s" "receiveCalls p (trace (bitsPing s)) = receiveCalls p (trace s)"
    and "files (bitsCreate lib h env r s) = files s"
    and "receiveCalls p (trace (bitsCreate lib h env r s)) = receiveCalls p (trace s)"
    and "files (bitsCancel lib h env r uuid s) = files s"
    and "receiveCalls p (trace (bitsCancel lib h env r uuid s)) = receiveCalls p (trace s)"
    and "files (bitsClose lib h env r uuid s) = files s"
    and "receiveCalls p (trace (bitsClose lib h env r uuid s)) = receiveCalls p (trace s)"
  using assms
  by (auto simp: bitsPing_def bitsCreate_def bitsCancel_def bitsClose_def Let_def MkdirAll_def
           split: option.splits prod.splits)

lemma fragment_receiveCalls:
  assumes fresh: "status s = None"
  shows "receiveCalls p (trace (bitsFragment lib h env r uuid s)) =
           receiveCalls p (trace s) @
           (if callback h \<and> status (bitsFragment lib h env r uuid s) = Some 200 \<and> isFinal r
               \<and> fragmentPath lib h r uuid = p
            then [uuid] else [])"
proof -
  from fragment_trace[OF fresh, of lib h env r uuid]
  obtain code where c: "status (bitsFragment lib h env r uuid s) = Some code"
    and t: "trace (bitsFragment lib h env r uuid s) =
           trace s @
           (if code = 200 \<and> isFinal r
            then [FileClose (fragmentPath lib h r uuid)]
                 @ (if callback h
                    then [Callback EventRecieveFile uuid (fragmentPath lib h r uuid)]
                    else [])
                 @ [WroteHeader 200]
            else [WroteHeader code])" by blast
  show ?thesis unfolding t c by auto
qed

lemma ServeHTTP_cases:
  obtains
    (plain) msg c where "ServeHTTP lib h env r s = http_Error msg c s" "c \<noteq> 200"
  | (other) "strings_ToLower lib (Get r ''BITS-Packet-Type'') \<noteq> ''fragment''"
      "ServeHTTP lib h env r s = bitsPing s
       \<or> ServeHTTP lib h env r s = bitsCreate lib h env r s
       \<or> ServeHTTP lib h env r s = bitsCancel lib h env r (Get r ''BITS-Session-Id'') s
       \<or> ServeHTTP lib h env r s = bitsClose lib h env r (Get r ''BITS-Session-Id'') s
       \<or> ServeHTTP lib h env r s = bitsError [] 400 0 ErrorContextRemoteFile s"
  | (fragment) "strings_ToLower lib (Get r ''BITS-Packet-Type'') = ''fragment''"
      "ServeHTTP lib h env r s = bitsFragment lib h env r (Get r ''BITS-Session-Id'') s"
proof (cases "DumpRequest_fails env \<or> Method r \<noteq> AllowedMethod (cfg h)")
  case True
  then have "ServeHTTP lib h env r s = http_Error ''Internal Server error'' 500 s
      \<or> ServeHTTP lib h env r s = http_Error ''Method not allowed'' 405 s"
    by (auto simp: ServeHTTP_def)
  then show ?thesis using plain[of "''Internal Server error''" 500] plain[of "''Method not allowed''" 405]
    by auto
next
  case False
  show ?thesis
  proof (cases "strings_ToLower lib (Get r ''BITS-Packet-Type'') = ''fragment''")
    case True
    then have "ServeHTTP lib h env r s = bitsFragment lib h env r (Get r ''BITS-Session-Id'') s"
      using False by (simp add: ServeHTTP_def)
    with True show ?thesis by (rule fragment)
  next
    case nf: False
    have "ServeHTTP lib h env r s = bitsPing s
       \<or> ServeHTTP lib h env r s = bitsCreate lib h env r s
       \<or> ServeHTTP lib h env r s = bitsCancel lib h env r (Get r ''BITS-Session-Id'') s
       \<or> ServeHTTP lib h env r s = bitsClose lib h env r (Get r ''BITS-Session-Id'') s
       \<or> ServeHTTP lib h env r s = bitsError [] 400 0 ErrorContextRemoteFile s"
      using False nf by (simp add: ServeHTTP_def Let_def)
    with nf show ?thesis by (rule other)
  qed
qed

lemma fragment_complete_stale':
  assumes fresh: "status s = None"
      and full: "\<forall>a b c. parseRange (Get r ''Content-Range'') = Some (a, b, c)
                   \<longrightarrow> length (fileBytes s (fragmentPath lib h r uuid)) = unat c"
  shows "(status (bitsFragment lib h env r uuid s) = Some 200 \<longrightarrow> \<not> isFinal r)
       \<and> fileBytes (bitsFragment lib h env r uuid s) (fragmentPath lib h r uuid)
           = fileBytes s (fragmentPath lib h r uuid)"
proof (cases "parseRange (Get r ''Content-Range'')")
  case None
  then show ?thesis
  proof (cases rule: bitsFragment_cases[where lib=lib and h=h and env=env and r=r and uuid=uuid and s=s])
    case (early u c s0)
    then show ?thesis using None by (simp add: fileBytes_def isFinal_def)
  next
    case (reached f s1 fileSize s2)
    then show ?thesis using checks_Inr(8)[OF reached(1)] None by simp
  qed
next
  case (Some abc)
  obtain a b c where "abc = (a, b, c)" by (cases abc)
  then have range: "parseRange (Get r ''Content-Range'') = Some (a, b, c)" using Some by simp
  with full have "length (fileBytes s (fragmentPath lib h r uuid)) = unat c" by blast
  from fragment_complete_stale[OF fresh range this] show ?thesis by simp
qed

lemma serve_calls:
  "receiveCalls p (trace (ServeHTTP lib h env r (newResponse s))) =
     receiveCalls p (trace s) @
     (if callback h \<and> finalAck lib h p r (ServeHTTP lib h env r (newResponse s))
      then [Get r ''BITS-Session-Id''] else [])"
proof (cases rule: ServeHTTP_cases[where lib=lib and h=h and env=env and r=r and s="newResponse s"])
  case (plain msg c)
  then show ?thesis by (simp add: finalAck_def)
next
  case other
  have f: "status (newResponse s) = None" by simp
  show ?thesis using other other_handlers[OF f] by (auto simp: finalAck_def)
next
  case fragment
  have f: "status (newResponse s) = None" by simp
  show ?thesis
    using fragment fragment_receiveCalls[OF f, of p lib h env r "Get r ''BITS-Session-Id''"]
    by (auto simp: finalAck_def)
qed

lemma serve_size:
  assumes len: "length (fileBytes s p) < 2 ^ 64" and body: "length (Body r) < 2 ^ 64"
  shows "length (fileBytes (ServeHTTP lib h env r (newResponse s)) p) < 2 ^ 64
       \<and> (finalAck lib h p r (ServeHTTP lib h env r (newResponse s)) \<longrightarrow>
            (\<forall>a b c. parseRange (Get r ''Content-Range'') = Some (a, b, c) \<longrightarrow>
               length (fileBytes (ServeHTTP lib h env r (newResponse s)) p) = unat c))"
proof (cases rule: ServeHTTP_cases[where lib=lib and h=h and env=env and r=r and s="newResponse s"])
  case (plain msg c)
  then show ?thesis using len by (simp add: finalAck_def fileBytes_def)
next
  case other
  have f: "status (newResponse s) = None" by simp
  show ?thesis using other other_handlers[OF f] len
    by (auto simp: finalAck_def fileBytes_def)
next
  case fragment
  have f: "status (newResponse s) = None" by simp
  let ?sid = "Get r ''BITS-Session-Id''"
  show ?thesis
  proof (cases "fragmentPath lib h r ?sid = p")
    case True
    have l: "length (fileBytes (newResponse s) (fragmentPath lib h r ?sid)) < 2 ^ 64"
      using len True by simp
    note fs = fragment_size[OF f l body, of env]
    show ?thesis using fs fragment True by (auto simp: finalAck_def isFinal_def)
  next
    case False
    then have "fileBytes (ServeHTTP lib h env r (newResponse s)) p = fileBytes s p"
      using fragment fragment_other_files[of p lib h r ?sid env "newResponse s"] by simp
    then show ?thesis using len False by (simp add: finalAck_def)
  qed
qed

lemma serve_done:
  assumes full: "length (fileBytes s p) = unat L"
      and same: "\<forall>a b c. fragmentPath lib h r (Get r ''BITS-Session-Id'') = p
                  \<and> parseRange (Get r ''Content-Range'') = Some (a, b, c) \<longrightarrow> c = L"
  shows "\<not> finalAck lib h p r (ServeHTTP lib h env r (newResponse s))
       \<and> fileBytes (ServeHTTP lib h env r (newResponse s)) p = fileBytes s p"
proof (cases rule: ServeHTTP_cases[where lib=lib and h=h and env=env and r=r and s="newResponse s"])
  case (plain msg c)
  then show ?thesis by (simp add: finalAck_def fileBytes_def)
next
  case other
  have f: "status (newResponse s) = None" by simp
  show ?thesis using other other_handlers[OF f]
    by (auto simp: finalAck_def fileBytes_def)
next
  case fragment
  have f: "status (newResponse s) = None" by simp
  let ?sid = "Get r ''BITS-Session-Id''"
  show ?thesis
  proof (cases "fragmentPath lib h r ?sid = p")
    case True
    have fl: "\<forall>a b c. parseRange (Get r ''Content-Range'') = Some (a, b, c)
                   \<longrightarrow> length (fileBytes (newResponse s) (fragmentPath lib h r ?sid)) = unat c"
      using same True full by auto
    from fragment_complete_stale'[OF f fl, of env] show ?thesis
      using fragment True by (auto simp: finalAck_def)
  next
    case False
    then have "fileBytes (ServeHTTP lib h env r (newResponse s)) p = fileBytes s p"
      using fragment fragment_other_files[of p lib h r ?sid env "newResponse s"] by simp
    then show ?thesis using False by (simp add: finalAck_def)
  qed
qed

lemma sameLength_D:
  assumes "sameLength lib h p L r"
  shows "\<forall>a b c. fragmentPath lib h r (Get r ''BITS-Session-Id'') = p
                  \<and> parseRange (Get r ''Content-Range'') = Some (a, b, c) \<longrightarrow> c = L"
  using assms by (auto simp: sameLength_def)

lemma run_done:
  assumes "list_all (\<lambda>er. sameLength lib h p L (snd er)) reqs"
      and "length (fileBytes s p) = unat L"
  shows "finalAcks lib h p reqs s = 0
       \<and> receiveCalls p (trace (last (s # serveAll lib h reqs s))) = receiveCalls p (trace s)"
  using assms
proof (induction reqs arbitrary: s)
  case Nil
  then show ?case by simp
next
  case (Cons x reqs)
  obtain env r where x: "x = (env, r)" by (cases x)
  let ?s' = "ServeHTTP lib h env r (newResponse s)"
  have sl: "sameLength lib h p L r" and rest: "list_all (\<lambda>er. sameLength lib h p L (snd er)) reqs"
    using Cons.prems(1) x by simp_all
  note d = serve_done[OF Cons.prems(2) sameLength_D[OF sl], of env]
  have full: "length (fileBytes ?s' p) = unat L" using d Cons.prems(2) by simp
  have calls: "receiveCalls p (trace ?s') = receiveCalls p (trace s)"
    using serve_calls[of p lib h env r s] d by simp
  from Cons.IH[OF rest full] show ?case using x d calls by simp
qed

lemma run_calls:
  assumes "list_all (\<lambda>er. length (Body (snd er)) < 2 ^ 64) reqs"
      and "list_all (\<lambda>er. sameLength lib h p L (snd er)) reqs"
      and "length (fileBytes s p) < 2 ^ 64"
  shows "finalAcks lib h p reqs s \<le> 1
       \<and> length (receiveCalls p (trace (last (s # serveAll lib h reqs s)))) =
           length (receiveCalls p (trace s))
             + (if callback h then finalAcks lib h p reqs s else 0)"
  using assms
proof (induction reqs arbitrary: s)
  case Nil
  then show ?case by simp
next
  case (Cons x reqs)
  obtain env r where x: "x = (env, r)" by (cases x)
  let ?s' = "ServeHTTP lib h env r (newResponse s)"
  have body: "length (Body r) < 2 ^ 64"
    and bodies: "list_all (\<lambda>er. length (Body (snd er)) < 2 ^ 64) reqs"
    using Cons.prems(1) x by simp_all
  have sl: "sameLength lib h p L r" and rest: "list_all (\<lambda>er. sameLength lib h p L (snd er)) reqs"
    using Cons.prems(2) x by simp_all
  note sz = serve_size[OF Cons.prems(3) body, of lib h env]
  note calls = serve_calls[of p lib h env r s]
  show ?case
  proof (cases "finalAck lib h p r ?s'")
    case True
    then have "isFinal r" and pth: "fragmentPath lib h r (Get r ''BITS-Session-Id'') = p"
      by (simp_all add: finalAck_def)
    then obtain a b c where range: "parseRange (Get r ''Content-Range'') = Some (a, b, c)"
      by (auto simp: isFinal_def split: option.splits)
    have "c = L" using sameLength_D[OF sl] pth range by blast
    then have full: "length (fileBytes ?s' p) = unat L" using sz True range by blast
    note fin = run_done[OF rest full]
    show ?thesis using x True fin calls by simp
  next
    case False
    have len': "length (fileBytes ?s' p) < 2 ^ 64" using sz by simp
    from Cons.IH[OF bodies rest len'] show ?thesis using x False calls by simp
  qed
qed

lemma fragment_dirs:
  "dirs (bitsFragment lib h env r uuid s) = dirs s
   \<or> dirs (bitsFragment lib h env r uuid s) = insert (path_Join lib (TempDir (cfg h)) uuid) (dirs s)"
proof (cases "bitsFragment_checks lib h env r uuid s")
  case (Inl s')
  then have eq: "bitsFragment lib h env r uuid s = s'" by (simp add: bitsFragment_def)
  from Inl show ?thesis
  proof (rule checks_Inl)
    fix u c s0
    assume "s' = bitsError u c 0 ErrorContextRemoteFile s0"
      "s0 = s \<or> s0 = s\<lparr>dirs := insert (path_Join lib (TempDir (cfg h)) uuid) (dirs s)\<rparr>"
    then show ?thesis using eq by auto
  qed
next
  case (Inr p)
  obtain f s1 where p: "p = (f, s1)" by (cases p)
  note c = Inr[unfolded p]
  have d1: "dirs s1 = insert (path_Join lib (TempDir (cfg h)) uuid) (dirs s)"
    using checks_Inr(4)[OF c] by simp
  show ?thesis
  proof (cases "bitsFragment_open env uuid f s1")
    case (Inl s')
    then have eq: "bitsFragment lib h env r uuid s = s'" using c by (simp add: bitsFragment_def)
    from Inl show ?thesis
    proof (rule open_Inl)
      fix c
      assume "s' = bitsError uuid c 0 ErrorContextRemoteFile s1"
      then show ?thesis using eq d1 by simp
    qed
  next
    case (Inr q)
    obtain fileSize s2 where q: "q = (fileSize, s2)" by (cases q)
    note opn = Inr[unfolded q]
    have d2: "dirs s2 = insert (path_Join lib (TempDir (cfg h)) uuid) (dirs s)"
      using open_Inr_fields(6)[OF opn] d1 by simp
    have run: "bitsFragment lib h env r uuid s = bitsFragment_write h env uuid f fileSize s2"
      using c opn by (simp add: bitsFragment_def)
    show ?thesis
    proof (cases rule: write_elim[where f=f and fileSize=fileSize and h=h and env=env and uuid=uuid and s=s2])
      case rejected
      then show ?thesis using run d2 by simp
    next
      case panic
      then show ?thesis using run d2 by simp
    next
      case (failed ys)
      then show ?thesis using run d2 by simp
    next
      case (acked wr)
      then show ?thesis using run d2 by simp
    qed
  qed
qed

lemma ex_parse_5_9_10: "parseRange ''bytes 5-9/10'' = Some (5, 9, 10)"
  by (simp add: parseRange_def ParseUint_def isDigit_def decimalVal_def digitVal_def)

lemma ex_fragment_type: "strings_ToLower exLib ''Fragment'' = ''fragment''"
  by (simp add: exLib_def asciiToLower_def)

lemma ex_serve:
  "ServeHTTP exLib exHandler exEnv (exFragment uri cr cl bytes) s
     = bitsFragment exLib exHandler exEnv (exFragment uri cr cl bytes) exId s"
proof -
  have m: "Method (exFragment uri cr cl bytes) = AllowedMethod (cfg exHandler)"
    by (simp add: exFragment_def exHandler_def exConfig_def)
  show ?thesis
    by (simp add: ServeHTTP_def exEnv_fields m ex_fragment_type Get_exFragment Let_def)
qed

lemma ex_step:
  assumes d: "exDir \<in> dirs s" "exHelloPath \<notin> dirs s" and fresh: "status s = None"
      and len: "length (fileBytes s exHelloPath) < 2 ^ 64" and blen: "length bytes < 2 ^ 64"
      and p: "parseRange cr = Some (a, b, c)" "c \<le> 100" "ParseUint cl = Some n"
        "of_nat (length bytes) = n" "b - a + 1 = n"
      and ns: "\<not> b < of_nat (length (fileBytes s exHelloPath))"
      and ng: "\<not> a > of_nat (length (fileBytes s exHelloPath))"
  shows "status (bitsFragment exLib exHandler exEnv (exFragment ''/up/hello.txt'' cr cl bytes) exId s)
           = Some 200"
    and "exDir \<in> dirs (bitsFragment exLib exHandler exEnv (exFragment ''/up/hello.txt'' cr cl bytes) exId s)"
    and "exHelloPath \<notin> dirs (bitsFragment exLib exHandler exEnv (exFragment ''/up/hello.txt'' cr cl bytes) exId s)"
    and "length (fileBytes (bitsFragment exLib exHandler exEnv (exFragment ''/up/hello.txt'' cr cl bytes) exId s)
            exHelloPath) = unat (b + 1)"
proof -
  let ?r = "exFragment ''/up/hello.txt'' cr cl bytes"
  let ?f = "\<lparr>src = exHelloPath, rangeStart = a, rangeEnd = b, fileLength = c,
             fragmentSize = n, data = bytes\<rparr>"
  let ?fs = "of_nat (length (fileBytes s exHelloPath)) :: uint64"
  note c = ex_checks[OF d(1) p]
  note o = ex_open[OF d(2) exHelloPath_not_dir, of a b c n bytes]
  have n: "\<not> rangeEnd ?f < ?fs" "\<not> rangeStart ?f > ?fs" using ns ng by simp_all
  show st: "status (bitsFragment exLib exHandler exEnv ?r exId s) = Some 200"
    by (rule accepted_status[OF c o n exEnv_fields(6,5) fresh])
  note fd = fragment_dirs[of exLib exHandler exEnv ?r exId s, unfolded ex_join]
  show "exDir \<in> dirs (bitsFragment exLib exHandler exEnv ?r exId s)"
    using fd d(1) by auto
  show "exHelloPath \<notin> dirs (bitsFragment exLib exHandler exEnv ?r exId s)"
    using fd d(2) exHelloPath_not_dir by auto
  have body: "length (Body ?r) < 2 ^ 64" using blen by (simp add: exFragment_def)
  have len': "length (fileBytes s (fragmentPath exLib exHandler ?r exId)) < 2 ^ 64"
    using len by (simp add: ex_path)
  from fragment_size[OF fresh len' body, of exEnv] st p(1)
  show "length (fileBytes (bitsFragment exLib exHandler exEnv ?r exId s) exHelloPath) = unat (b + 1)"
    by (simp add: ex_path Get_exFragment)
qed

text \<open>
  Claim C4.  A fragment request on a fresh response ends with a status, and what it adds
  to the trace is: for a request that is acknowledged with status 200 and whose range
  satisfies \<open>range_end + 1 = file_length\<close>, the close of the upload file, then the call
  of the callback with \<open>EventRecieveFile\<close>, the session id and the path of the file (the
  callback is optional, line 339; a handler without one has nothing to call), then the
  status 200; for every other fragment request the status alone, so no close and no event.
  Across a run of requests of any kind, each on a fresh response, in which every fragment
  request for the file \<open>p\<close> announces the same total length \<open>L\<close>: at most one request is a
  final fragment for \<open>p\<close> that is acknowledged, and the number of receive-file calls for
  \<open>p\<close> grows by exactly the number of such requests: by one when the upload completes.
  Bodies and the file are shorter than \<open>2 ^ 64\<close> bytes, as every Go slice and file is.
\<close>

theorem C4_receive_event:
  "(status s = None \<longrightarrow>
      (\<exists>code. status (bitsFragment lib h env r uuid s) = Some code
         \<and> trace (bitsFragment lib h env r uuid s) =
             trace s @
             (if code = 200 \<and> isFinal r
              then [FileClose (fragmentPath lib h r uuid)]
                   @ (if callback h
                      then [Callback EventRecieveFile uuid (fragmentPath lib h r uuid)]
                      else [])
                   @ [WroteHeader 200]
              else [WroteHeader code])))
   \<and> (list_all (\<lambda>er. length (Body (snd er)) < 2 ^ 64) reqs
        \<and> list_all (\<lambda>er. sameLength lib h p L (snd er)) reqs
        \<and> length (fileBytes s0 p) < 2 ^ 64 \<longrightarrow>
          finalAcks lib h p reqs s0 \<le> 1
        \<and> length (receiveCalls p (trace (last (s0 # serveAll lib h reqs s0)))) =
            length (receiveCalls p (trace s0))
              + (if callback h then finalAcks lib h p reqs s0 else 0))"
  using fragment_trace[of s lib h env r uuid] run_calls[of reqs lib h p L s0]
  by blast

theorem C4_receive_event_witness:
  "trace (last (exSession # serveAll exLib exHandler
       [(exEnv, exFragment ''/up/hello.txt'' ''bytes 0-4/10'' ''5'' ''Hello''),
        (exEnv, exFragment ''/up/hello.txt'' ''bytes 5-9/10'' ''5'' ''World'')] exSession))
     = [WroteHeader 200, FileClose exHelloPath, Callback EventRecieveFile exId exHelloPath,
        WroteHeader 200]
   \<and> finalAcks exLib exHandler exHelloPath
       [(exEnv, exFragment ''/up/hello.txt'' ''bytes 0-4/10'' ''5'' ''Hello''),
        (exEnv, exFragment ''/up/hello.txt'' ''bytes 5-9/10'' ''5'' ''World'')] exSession = 1
   \<and> length (receiveCalls exHelloPath (trace (last (exSession # serveAll exLib exHandler
       [(exEnv, exFragment ''/up/hello.txt'' ''bytes 0-4/10'' ''5'' ''Hello''),
        (exEnv, exFragment ''/up/hello.txt'' ''bytes 5-9/10'' ''5'' ''World'')] exSession)))) = 1"
proof -
  let ?r1 = "exFragment ''/up/hello.txt'' ''bytes 0-4/10'' ''5'' ''Hello''"
  let ?r2 = "exFragment ''/up/hello.txt'' ''bytes 5-9/10'' ''5'' ''World''"
  let ?s1 = "bitsFragment exLib exHandler exEnv ?r1 exId (newResponse exSession)"
  let ?s2 = "bitsFragment exLib exHandler exEnv ?r2 exId (newResponse ?s1)"
  have five: "of_nat (length ''Hello'') = (5 :: uint64)" "of_nat (length ''World'') = (5 :: uint64)"
    by simp_all
  have fin: "\<not> isFinal ?r1" "isFinal ?r2"
    by (simp_all add: isFinal_def Get_exFragment ex_parse_0_4_10 ex_parse_5_9_10)
  have a0: "exDir \<in> dirs (newResponse exSession)" "exHelloPath \<notin> dirs (newResponse exSession)"
    "status (newResponse exSession) = None"
    "length (fileBytes (newResponse exSession) exHelloPath) < 2 ^ 64"
    "\<not> (4 :: uint64) < of_nat (length (fileBytes (newResponse exSession) exHelloPath))"
    "\<not> (0 :: uint64) > of_nat (length (fileBytes (newResponse exSession) exHelloPath))"
    using exSession_fields by simp_all
  have bl: "length ''Hello'' < 2 ^ 64" "length ''World'' < 2 ^ 64" by simp_all
  note st1 = ex_step[OF a0(1,2,3,4) bl(1) ex_parse_0_4_10 _ ex_parse_5 five(1) _ a0(5,6)]
  have s1: "status ?s1 = Some 200" "exDir \<in> dirs ?s1" "exHelloPath \<notin> dirs ?s1"
    "length (fileBytes ?s1 exHelloPath) = 5"
    using st1 by simp_all
  have a1: "exDir \<in> dirs (newResponse ?s1)" "exHelloPath \<notin> dirs (newResponse ?s1)"
    "status (newResponse ?s1) = None"
    "length (fileBytes (newResponse ?s1) exHelloPath) < 2 ^ 64"
    "\<not> (9 :: uint64) < of_nat (length (fileBytes (newResponse ?s1) exHelloPath))"
    "\<not> (5 :: uint64) > of_nat (length (fileBytes (newResponse ?s1) exHelloPath))"
    using s1 by simp_all
  note st2 = ex_step[OF a1(1,2,3,4) bl(2) ex_parse_5_9_10 _ ex_parse_5 five(2) _ a1(5,6)]
  have s2: "status ?s2 = Some 200" using st2 by simp
  have run: "serveAll exLib exHandler [(exEnv, ?r1), (exEnv, ?r2)] exSession = [?s1, ?s2]"
    by (simp add: ex_serve)
  have acks: "finalAcks exLib exHandler exHelloPath [(exEnv, ?r1), (exEnv, ?r2)] exSession = 1"
    using fin s2 by (simp add: ex_serve finalAck_def ex_fragment_type ex_path Get_exFragment)
  note th1 = C4_receive_event[of "newResponse exSession" exLib exHandler exEnv ?r1 exId
      "[(exEnv, ?r1), (exEnv, ?r2)]" exHelloPath 10 exSession]
  note th2 = C4_receive_event[of "newResponse ?s1" exLib exHandler exEnv ?r2 exId
      "[]" exHelloPath 10 exSession]
  have t1: "trace ?s1 = [WroteHeader 200]"
    using th1 a0(3) s1(1) fin(1) exSession_fields(7) by auto
  have cb: "callback exHandler" by (simp add: exHandler_def)
  have t2: "trace ?s2 = trace ?s1 @ [FileClose exHelloPath,
      Callback EventRecieveFile exId exHelloPath, WroteHeader 200]"
    using th2 a1(3) s2 fin(2) cb by (auto simp: ex_path)
  have hyp: "list_all (\<lambda>er. length (Body (snd er)) < 2 ^ 64) [(exEnv, ?r1), (exEnv, ?r2)]"
    "list_all (\<lambda>er. sameLength exLib exHandler exHelloPath 10 (snd er)) [(exEnv, ?r1), (exEnv, ?r2)]"
    "length (fileBytes exSession exHelloPath) < 2 ^ 64"
    by (simp_all add: exFragment_def sameLength_def Get_def ex_parse_0_4_10 ex_parse_5_9_10
          exSession_fields)
  from th1 hyp have
    "length (receiveCalls exHelloPath (trace (last (exSession # serveAll exLib exHandler
        [(exEnv, ?r1), (exEnv, ?r2)] exSession)))) =
      length (receiveCalls exHelloPath (trace exSession))
        + (if callback exHandler then finalAcks exLib exHandler exHelloPath
             [(exEnv, ?r1), (exEnv, ?r2)] exSession else 0)"
    by blast
  then have n: "length (receiveCalls exHelloPath (trace (last (exSession # serveAll exLib exHandler
        [(exEnv, ?r1), (exEnv, ?r2)] exSession)))) = 1"
    using acks cb exSession_fields(7) by simp
  have tr: "trace (last (exSession # serveAll exLib exHandler [(exEnv, ?r1), (exEnv, ?r2)] exSession))
     = [WroteHeader 200, FileClose exHelloPath, Callback EventRecieveFile exId exHelloPath,
        WroteHeader 200]"
    unfolding run using t1 t2 by simp
  show ?thesis using tr acks n by blast
qed

end
